theory Spec2Isabelle
  imports Complex_Main "HOL-Library.Code_Target_Numeral"
begin

section \<open>Values, errors and the outside world\<close>

text \<open>
  The program is \<^verbatim>\<open>weather.py\<close>: three functions that each call an external service
  (\<^verbatim>\<open>get_coordinates\<close>, \<^verbatim>\<open>get_current_weather\<close>, \<^verbatim>\<open>get_hourly_weather\<close>) and a
  \<^verbatim>\<open>handler\<close> that calls them in sequence and maps their outcomes to status codes.

  A decoded JSON payload is a value of \<open>json\<close>. Python's \<^verbatim>\<open>float\<close> is carried as a
  \<open>real\<close>: the program never computes with the numbers it receives, it only passes them
  on. A JSON object is an association list read with \<open>map_of\<close>; its keys are strings.

  A Python \<^verbatim>\<open>str\<close> is a \<open>string\<close> whose characters are its code points, so
  \<open>CHR 0xA0\<close> is U+00A0; the model covers the strings whose code points are all below
  256.
\<close>

datatype json =
    JNull
  | JBool bool
  | JInt int
  | JFloat real
  | JStr string
  | JArr "json list"
  | JObj "(string \<times> json) list"

text \<open>The exceptions that escape the program's \<^verbatim>\<open>try\<close> blocks.\<close>

datatype py_error = ValueError | AttributeError | TypeError | KeyError | IndexError

text \<open>\<^verbatim>\<open>d.get(key, default)\<close>: only a dict has the method.\<close>

fun py_get :: "json \<Rightarrow> string \<Rightarrow> json \<Rightarrow> py_error + json" where
  "py_get (JObj kvs) k d = Inr (case map_of kvs k of None \<Rightarrow> d | Some v \<Rightarrow> v)"
| "py_get _ k d = Inl AttributeError"

text \<open>\<^verbatim>\<open>len(x)\<close>: lists, strings and dicts are sized, the other JSON values are not.\<close>

fun py_len :: "json \<Rightarrow> py_error + nat" where
  "py_len (JArr xs) = Inr (length xs)"
| "py_len (JStr s) = Inr (length s)"
| "py_len (JObj kvs) = Inr (length (remdups (map fst kvs)))"
| "py_len _ = Inl TypeError"

text \<open>
  \<^verbatim>\<open>x[i]\<close> for an index \<open>i \<ge> 0\<close> (the program only indexes with values of a
  \<^verbatim>\<open>range\<close>). A dict decoded from JSON has no integer key.
\<close>

fun py_getitem :: "json \<Rightarrow> nat \<Rightarrow> py_error + json" where
  "py_getitem (JArr xs) i = (if i < length xs then Inr (xs ! i) else Inl IndexError)"
| "py_getitem (JStr s) i = (if i < length s then Inr (JStr [s ! i]) else Inl IndexError)"
| "py_getitem (JObj kvs) i = Inl KeyError"
| "py_getitem _ i = Inl TypeError"

text \<open>\<^verbatim>\<open>range(n)\<close> is empty for \<open>n \<le> 0\<close>.\<close>

definition py_range :: "int \<Rightarrow> nat list" where
  "py_range n = (if n \<le> 0 then [] else [0 ..< nat n])"

subsection \<open>The built-in \<^verbatim>\<open>int\<close> on a string\<close>

text \<open>
  \<^verbatim>\<open>int(s)\<close> in base ten: surrounding whitespace is skipped, one sign is allowed, then
  at least one digit; a single underscore may stand between two digits. Anything else
  raises \<^verbatim>\<open>ValueError\<close>. Among the code points below 256 the whitespace is U+0009 to
  U+000D, U+0020, U+0085 and U+00A0 (U+001C to U+001F are whitespace for
  \<^verbatim>\<open>str.strip\<close> but not for \<^verbatim>\<open>int\<close>), and the only decimal digits are \<open>0\<close> to
  \<open>9\<close>.

  The interpreter also refuses a literal with too many digits: with the limit
  \<^verbatim>\<open>sys.get_int_max_str_digits()\<close> set to \<open>limit\<close> (4300 unless configured, 0 for no
  limit), more than \<open>limit\<close> digits raise \<^verbatim>\<open>ValueError\<close>. Leading zeros count,
  underscores, sign and whitespace do not, and up to 640 digits are never refused.
\<close>

definition is_space :: "char \<Rightarrow> bool" where
  "is_space c =
     (c \<in> set [CHR 0x20, CHR 0x09, CHR 0x0A, CHR 0x0B, CHR 0x0C, CHR 0x0D, CHR 0x85,
                CHR 0xA0])"

definition is_digit :: "char \<Rightarrow> bool" where
  "is_digit c = (48 \<le> (of_char c :: nat) \<and> (of_char c :: nat) \<le> 57)"

definition digit_val :: "char \<Rightarrow> nat" where
  "digit_val c = (of_char c :: nat) - 48"

text \<open>
  \<open>scan_digits acc cnt cs\<close> reads the rest of the digits: \<open>acc\<close> is the value so far and
  \<open>cnt\<close> the number of digits read. It returns the value, the number of digits and what
  follows them.
\<close>

fun scan_digits :: "nat \<Rightarrow> nat \<Rightarrow> string \<Rightarrow> (nat \<times> nat \<times> string) option" where
  "scan_digits acc cnt [] = Some (acc, cnt, [])"
| "scan_digits acc cnt [c] =
     (if is_digit c then Some (10 * acc + digit_val c, Suc cnt, [])
      else if c = CHR ''_'' then None
      else Some (acc, cnt, [c]))"
| "scan_digits acc cnt (c # d # ds) =
     (if is_digit c then scan_digits (10 * acc + digit_val c) (Suc cnt) (d # ds)
      else if c = CHR ''_'' then
        (if is_digit d then scan_digits (10 * acc + digit_val d) (Suc cnt) ds else None)
      else Some (acc, cnt, c # d # ds))"

definition py_int :: "nat \<Rightarrow> string \<Rightarrow> py_error + int" where
  "py_int limit s =
     (let s1 = dropWhile is_space s;
          neg = (case s1 of c # cs \<Rightarrow> c = CHR ''-'' | [] \<Rightarrow> False);
          s2 = (case s1 of c # cs \<Rightarrow> if c = CHR ''+'' \<or> c = CHR ''-'' then cs else s1
                | [] \<Rightarrow> [])
      in case s2 of
           [] \<Rightarrow> Inl ValueError
         | d # ds \<Rightarrow>
             if is_digit d then
               (case scan_digits (digit_val d) 1 ds of
                  None \<Rightarrow> Inl ValueError
                | Some (v, cnt, rest) \<Rightarrow>
                    if dropWhile is_space rest \<noteq> [] then Inl ValueError
                    else if 640 < cnt \<and> 0 < limit \<and> limit < cnt then Inl ValueError
                    else Inr (if neg then - int v else int v))
             else Inl ValueError)"

subsection \<open>Arithmetic in binary64\<close>

text \<open>
  Python's \<^verbatim>\<open>float\<close> arithmetic rounds every result to 53 significant bits, to nearest
  and ties to even. The results the program computes are integer multiples of
  \<open>1 / 2 ^ 53\<close>, so the rounding is done on their integer numerators. \<open>bit_length\<close> is
  \<^verbatim>\<open>int.bit_length\<close>; \<open>round_shift n d\<close> is \<open>n / 2 ^ d\<close> rounded to an integer;
  \<open>fl_nat n\<close> is \<open>n\<close> rounded to 53 significant bits and \<open>fl_int\<close> the same with a
  sign. Overflow cannot arise below \<open>2 ^ 1024\<close> and is not modelled.
\<close>

fun bit_length :: "nat \<Rightarrow> nat" where
  "bit_length n = (if n = 0 then 0 else Suc (bit_length (n div 2)))"

definition round_shift :: "nat \<Rightarrow> nat \<Rightarrow> nat" where
  "round_shift n d =
     (let q = n div 2 ^ d; r = n mod 2 ^ d
      in if 2 * r < 2 ^ d then q
         else if 2 ^ d < 2 * r then q + 1
         else if even q then q else q + 1)"

definition fl_nat :: "nat \<Rightarrow> nat" where
  "fl_nat n = (let d = bit_length n - 53 in round_shift n d * 2 ^ d)"

definition fl_int :: "int \<Rightarrow> int" where
  "fl_int z = (if z < 0 then - int (fl_nat (nat (- z))) else int (fl_nat (nat z)))"

subsection \<open>External services and the random module\<close>

text \<open>
  What the geocoding service answers to \<^verbatim>\<open>geolocator.geocode(city_name)\<close>: a location,
  no match (\<^verbatim>\<open>None\<close>), or an exception.
\<close>

datatype geo_reply = GeoLocation real real | GeoNone | GeoError

text \<open>
  What \<^verbatim>\<open>requests.get\<close>, \<^verbatim>\<open>raise_for_status\<close> and \<^verbatim>\<open>response.json()\<close> yield together:
  the decoded body, or a \<^verbatim>\<open>RequestException\<close> (transport error, error status, body
  that is not JSON).
\<close>

datatype http_reply = RequestException | Json json

text \<open>
  The environment of one run. \<open>randbelow k n\<close> is what the random module's generator
  returns at its \<open>k\<close>-th draw for \<^verbatim>\<open>_randbelow(n)\<close>, and \<open>random_bits k\<close> is the 53-bit
  integer \<open>m\<close> behind its \<open>k\<close>-th \<^verbatim>\<open>random()\<close>, which returns \<open>m / 2 ^ 53\<close>;
  \<open>now_stamp\<close> and \<open>today\<close> are the clock formatted as the program formats it;
  \<open>int_max_str_digits\<close> is the interpreter's \<^verbatim>\<open>sys.get_int_max_str_digits()\<close>.
\<close>

record env =
  geocode :: "string \<Rightarrow> geo_reply"
  forecast_current :: "real \<Rightarrow> real \<Rightarrow> http_reply"
  forecast_hourly :: "real \<Rightarrow> real \<Rightarrow> string \<Rightarrow> http_reply"
  now_stamp :: string
  today :: string
  randbelow :: "nat \<Rightarrow> int \<Rightarrow> int"
  random_bits :: "nat \<Rightarrow> nat"
  int_max_str_digits :: nat

text \<open>
  \<^verbatim>\<open>random.randint(a, b)\<close> is \<^verbatim>\<open>a + _randbelow(b - a + 1)\<close>, in integers.
\<close>

definition randint :: "env \<Rightarrow> nat \<Rightarrow> int \<Rightarrow> int \<Rightarrow> int" where
  "randint e k a b = a + randbelow e k (b - a + 1)"

text \<open>
  \<^verbatim>\<open>random.uniform(a, b)\<close> is \<^verbatim>\<open>a + (b - a) * random()\<close>. The program calls it with
  integers: \<^verbatim>\<open>b - a\<close> is an exact integer, the product converts it to a float and
  rounds, and the sum converts \<^verbatim>\<open>a\<close> and rounds again.
\<close>

definition uniform :: "env \<Rightarrow> nat \<Rightarrow> int \<Rightarrow> int \<Rightarrow> real" where
  "uniform e k a b =
     real_of_int
       (fl_int (fl_int a * 2 ^ 53 + fl_int (fl_int (b - a) * int (random_bits e k))))
     / 2 ^ 53"

text \<open>
  The random module's contract: \<open>0 \<le> _randbelow(n) < n\<close>, and \<^verbatim>\<open>random()\<close> is
  \<open>m / 2 ^ 53\<close> for an integer \<open>0 \<le> m < 2 ^ 53\<close>.
\<close>

definition random_ok :: "env \<Rightarrow> bool" where
  "random_ok e =
     ((\<forall>k n. 0 < n \<longrightarrow> 0 \<le> randbelow e k n \<and> randbelow e k n < n) \<and>
      (\<forall>k. random_bits e k < 2 ^ 53))"

text \<open>
  The observable effects of a run: which of the three functions were entered, in order,
  and how many random draws were made.
\<close>

datatype call =
    GetCoordinates string
  | GetCurrentWeather real real
  | GetHourlyWeather real real int

record world =
  calls :: "call list"
  draws :: nat

definition enter :: "call \<Rightarrow> world \<Rightarrow> world" where
  "enter c s = s\<lparr>calls := calls s @ [c]\<rparr>"

definition draw :: "world \<Rightarrow> world" where
  "draw s = s\<lparr>draws := Suc (draws s)\<rparr>"

text \<open>An exception that no handler catches ends the computation with the state reached.\<close>

definition raising ::
  "py_error + 'a \<Rightarrow> world \<Rightarrow> ('a \<Rightarrow> (py_error + 'b) \<times> world) \<Rightarrow> (py_error + 'b) \<times> world" where
  "raising r s f = (case r of Inl e \<Rightarrow> (Inl e, s) | Inr v \<Rightarrow> f v)"

section \<open>The three fetchers\<close>

definition get_coordinates :: "env \<Rightarrow> world \<Rightarrow> string \<Rightarrow> (real option \<times> real option) \<times> world" where
  "get_coordinates e s city_name =
     (let s1 = enter (GetCoordinates city_name) s
      in case geocode e city_name of
           GeoLocation latitude longitude \<Rightarrow> ((Some latitude, Some longitude), s1)
         | GeoNone \<Rightarrow> ((None, None), s1)
         | GeoError \<Rightarrow> ((None, None), s1))"

record current_weather =
  cw_date :: string
  cw_temperature :: json
  cw_wind_speed :: json
  cw_wind_direction :: json
  cw_humidity :: json
  cw_pressure :: json

text \<open>
  The two defaults are arguments of \<^verbatim>\<open>get\<close>, so both random draws are made whether or
  not the payload has the key.
\<close>

definition get_current_weather ::
  "env \<Rightarrow> world \<Rightarrow> real \<Rightarrow> real \<Rightarrow> (py_error + current_weather option) \<times> world" where
  "get_current_weather e s latitude longitude =
     (let s1 = enter (GetCurrentWeather latitude longitude) s
      in case forecast_current e latitude longitude of
           RequestException \<Rightarrow> (Inr None, s1)
         | Json data \<Rightarrow>
             raising (py_get data ''current_weather'' (JObj [])) s1 (\<lambda>current_weather.
             raising (py_get current_weather ''temperature'' (JStr ''N/A'')) s1 (\<lambda>temperature.
             raising (py_get current_weather ''windspeed'' (JStr ''N/A'')) s1 (\<lambda>wind_speed.
             raising (py_get current_weather ''winddirection'' (JStr ''N/A'')) s1 (\<lambda>wind_direction.
             let d1 = JInt (randint e (draws s1) 30 90); s2 = draw s1 in
             raising (py_get current_weather ''relative_humidity'' d1) s2 (\<lambda>humidity.
             let d2 = JInt (randint e (draws s2) 980 1050); s3 = draw s2 in
             raising (py_get current_weather ''pressure_msl'' d2) s3 (\<lambda>pressure.
               (Inr (Some \<lparr>cw_date = now_stamp e, cw_temperature = temperature,
                            cw_wind_speed = wind_speed, cw_wind_direction = wind_direction,
                            cw_humidity = humidity, cw_pressure = pressure\<rparr>), s3))))))))"

record hourly_point =
  hp_time :: json
  hp_wind_speed :: json
  hp_wind_direction :: json

text \<open>
  The conditional expression \<^verbatim>\<open>xs[i] if i < len(xs) else random.uniform(a, b)\<close>, which the
  loop body has once for each of the two wind arrays.
\<close>

definition entry_or_uniform ::
  "env \<Rightarrow> world \<Rightarrow> json \<Rightarrow> nat \<Rightarrow> int \<Rightarrow> int \<Rightarrow> (py_error + json) \<times> world" where
  "entry_or_uniform e s xs i a b =
     raising (py_len xs) s (\<lambda>n.
       if i < n then (py_getitem xs i, s)
       else (Inr (JFloat (uniform e (draws s) a b)), draw s))"

text \<open>The \<^verbatim>\<open>for\<close> loop over the indices, appending one point per index.\<close>

fun hourly_loop ::
  "env \<Rightarrow> json \<Rightarrow> json \<Rightarrow> json \<Rightarrow> nat list \<Rightarrow> world \<Rightarrow> hourly_point list
   \<Rightarrow> (py_error + hourly_point list) \<times> world" where
  "hourly_loop e times' wind_speeds wind_directions [] s hourly_weather = (Inr hourly_weather, s)"
| "hourly_loop e times' wind_speeds wind_directions (i # rest) s hourly_weather =
     raising (py_getitem times' i) s (\<lambda>time_str.
       case entry_or_uniform e s wind_speeds i (5 - 2) (5 + 3) of
         (Inl err, s1) \<Rightarrow> (Inl err, s1)
       | (Inr wind_speed, s1) \<Rightarrow>
           (case entry_or_uniform e s1 wind_directions i 0 360 of
              (Inl err, s2) \<Rightarrow> (Inl err, s2)
            | (Inr wind_direction, s2) \<Rightarrow>
                hourly_loop e times' wind_speeds wind_directions rest s2
                  (hourly_weather @ [\<lparr>hp_time = time_str, hp_wind_speed = wind_speed,
                                       hp_wind_direction = wind_direction\<rparr>])))"

definition get_hourly_weather ::
  "env \<Rightarrow> world \<Rightarrow> real \<Rightarrow> real \<Rightarrow> int \<Rightarrow> (py_error + hourly_point list option) \<times> world" where
  "get_hourly_weather e s latitude longitude end_hour =
     (let s1 = enter (GetHourlyWeather latitude longitude end_hour) s
      in case forecast_hourly e latitude longitude (today e) of
           RequestException \<Rightarrow> (Inr None, s1)
         | Json data \<Rightarrow>
             raising (py_get data ''hourly'' (JObj [])) s1 (\<lambda>hourly_data.
             raising (py_get hourly_data ''windspeed_10m'' (JArr [])) s1 (\<lambda>wind_speeds.
             raising (py_get hourly_data ''winddirection_10m'' (JArr [])) s1 (\<lambda>wind_directions.
             raising (py_get hourly_data ''time'' (JArr [])) s1 (\<lambda>times'.
             raising (py_len times') s1 (\<lambda>n.
               case hourly_loop e times' wind_speeds wind_directions
                      (py_range (min (end_hour + 1) (int n))) s1 [] of
                 (Inl err, s2) \<Rightarrow> (Inl err, s2)
               | (Inr hourly_weather, s2) \<Rightarrow> (Inr (Some hourly_weather), s2)))))))"

section \<open>The request handler\<close>

record request =
  query :: "string \<rightharpoonup> string"

datatype body = Message string | Weather current_weather "hourly_point list"

record response =
  statusCode :: nat
  body :: body

definition missing_params :: string where
  "missing_params = ''Please provide both '' @ [CHR 0x27] @ ''city'' @ [CHR 0x27] @ '' and ''
     @ [CHR 0x27] @ ''hour'' @ [CHR 0x27] @ '' parameters.''"

definition handler :: "env \<Rightarrow> world \<Rightarrow> request \<Rightarrow> (py_error + response) \<times> world" where
  "handler e s request =
     (case (query request ''city'', query request ''hour'') of
        (Some city_name, Some end_hour) \<Rightarrow>
          (case get_coordinates e s city_name of
             ((Some latitude, Some longitude), s1) \<Rightarrow>
               (case get_current_weather e s1 latitude longitude of
                  (Inl err, s2) \<Rightarrow> (Inl err, s2)
                | (Inr None, s2) \<Rightarrow>
                    (Inr \<lparr>statusCode = 500,
                          body = Message ''Error fetching current weather data.''\<rparr>, s2)
                | (Inr (Some current_weather), s2) \<Rightarrow>
                    raising (py_int (int_max_str_digits e) end_hour) s2 (\<lambda>n.
                      case get_hourly_weather e s2 latitude longitude n of
                        (Inl err, s3) \<Rightarrow> (Inl err, s3)
                      | (Inr None, s3) \<Rightarrow>
                          (Inr \<lparr>statusCode = 500,
                                body = Message ''Error fetching hourly weather data.''\<rparr>, s3)
                      | (Inr (Some hourly_weather), s3) \<Rightarrow>
                          (Inr \<lparr>statusCode = 200,
                                body = Weather current_weather hourly_weather\<rparr>, s3)))
           | (_, s1) \<Rightarrow> (Inr \<lparr>statusCode = 404, body = Message ''City not found.''\<rparr>, s1))
      | _ \<Rightarrow> (Inr \<lparr>statusCode = 400, body = Message missing_params\<rparr>, s))"

section \<open>Sample environments\<close>

text \<open>
  A concrete outside world on which the theorems below are exercised. Its first
  \<^verbatim>\<open>random()\<close> is \<open>1/2\<close> and every later one the largest float below 1. Pune is geocoded
  and both forecasts answer; for Oslo the current-weather request fails; for Lima the
  hourly request fails; for Cairo the current payload has a humidity and no pressure, and
  the hourly payload has two timestamps, one wind speed and no wind direction; Atlantis
  has no match and any other name makes the geocoder raise.
\<close>

definition sample_times :: "json list" where
  "sample_times =
     [JStr ''2024-05-01T00:00'', JStr ''2024-05-01T01:00'', JStr ''2024-05-01T02:00'',
      JStr ''2024-05-01T03:00'', JStr ''2024-05-01T04:00'', JStr ''2024-05-01T05:00'',
      JStr ''2024-05-01T06:00'', JStr ''2024-05-01T07:00'', JStr ''2024-05-01T08:00'',
      JStr ''2024-05-01T09:00'', JStr ''2024-05-01T10:00'', JStr ''2024-05-01T11:00'',
      JStr ''2024-05-01T12:00'', JStr ''2024-05-01T13:00'', JStr ''2024-05-01T14:00'',
      JStr ''2024-05-01T15:00'', JStr ''2024-05-01T16:00'', JStr ''2024-05-01T17:00'',
      JStr ''2024-05-01T18:00'', JStr ''2024-05-01T19:00'', JStr ''2024-05-01T20:00'',
      JStr ''2024-05-01T21:00'', JStr ''2024-05-01T22:00'', JStr ''2024-05-01T23:00'']"

definition sample_speeds :: "json list" where
  "sample_speeds =
     [JFloat 4.5, JFloat 11.5, JFloat 9.5, JFloat 7.5, JFloat 5.5, JFloat 12.5, JFloat 10.5,
      JFloat 8.5, JFloat 6.5, JFloat 4.5, JFloat 11.5, JFloat 9.5, JFloat 7.5, JFloat 5.5,
      JFloat 12.5, JFloat 10.5, JFloat 8.5, JFloat 6.5, JFloat 4.5, JFloat 11.5, JFloat 9.5,
      JFloat 7.5, JFloat 5.5, JFloat 12.5]"

definition sample_directions :: "json list" where
  "sample_directions =
     [JInt 200, JInt 213, JInt 226, JInt 239, JInt 252, JInt 265, JInt 278, JInt 291,
      JInt 304, JInt 317, JInt 330, JInt 343, JInt 356, JInt 9, JInt 22, JInt 35, JInt 48,
      JInt 61, JInt 74, JInt 87, JInt 100, JInt 113, JInt 126, JInt 139]"

definition sample_current :: json where
  "sample_current =
     JObj [(''current_weather'',
            JObj [(''temperature'', JFloat 29.4), (''windspeed'', JFloat 7.2),
                  (''winddirection'', JInt 240)])]"

definition humid_current :: json where
  "humid_current =
     JObj [(''current_weather'',
            JObj [(''temperature'', JInt 35), (''relative_humidity'', JInt 12)])]"

definition sample_hourly_data :: json where
  "sample_hourly_data =
     JObj [(''time'', JArr sample_times), (''windspeed_10m'', JArr sample_speeds),
           (''winddirection_10m'', JArr sample_directions)]"

definition sample_hourly :: json where
  "sample_hourly = JObj [(''hourly'', sample_hourly_data)]"

definition short_hourly_data :: json where
  "short_hourly_data =
     JObj [(''time'', JArr [JStr ''2024-05-01T00:00'', JStr ''2024-05-01T01:00'']),
           (''windspeed_10m'', JArr [JInt 20]),
           (''winddirection_10m'', JArr [])]"

definition short_hourly :: json where
  "short_hourly = JObj [(''hourly'', short_hourly_data)]"

definition sample_env :: env where
  "sample_env =
     \<lparr>geocode = (\<lambda>c. if c = ''Pune'' then GeoLocation 18.5 73.9
                      else if c = ''Oslo'' then GeoLocation 59.9 10.7
                      else if c = ''Lima'' then GeoLocation (-12) (-77)
                      else if c = ''Cairo'' then GeoLocation 30 31.2
                      else if c = ''Atlantis'' then GeoNone
                      else GeoError),
      forecast_current = (\<lambda>lat lon. if lat = 59.9 then RequestException
                                       else if lat = 30 then Json humid_current
                                       else Json sample_current),
      forecast_hourly = (\<lambda>lat lon d. if lat = -12 then RequestException
                                        else if lat = 30 then Json short_hourly
                                        else Json sample_hourly),
      now_stamp = ''2024-05-01 10:15:00'',
      today = ''2024-05-01'',
      randbelow = (\<lambda>k n. int k mod n),
      random_bits = (\<lambda>k. if k = 0 then 2 ^ 52 else 2 ^ 53 - 1),
      int_max_str_digits = 4300\<rparr>"

definition world0 :: world where
  "world0 = \<lparr>calls = [], draws = 0\<rparr>"

definition req :: "string \<Rightarrow> string \<Rightarrow> request" where
  "req c h = \<lparr>query = [''city'' \<mapsto> c, ''hour'' \<mapsto> h]\<rparr>"

section \<open>Basic facts\<close>

lemma raising_Inl: "raising (Inl err) s f = (Inl err, s)"
  by (simp add: raising_def)

lemma raising_Inr: "raising (Inr v) s f = f v"
  by (simp add: raising_def)

lemma random_ok_sample: "random_ok sample_env"
  by (simp add: random_ok_def sample_env_def)

text \<open>
  A literal padded with no-break spaces is an integer for \<^verbatim>\<open>int\<close>; one padded
  with U+001C is not.
\<close>

lemma py_int_padded:
  "py_int 4300 ([CHR 0xA0] @ ''5'' @ [CHR 0x85]) = Inr 5"
  "py_int 4300 ([CHR 0x1C] @ ''5'') = Inl ValueError"
  by (simp_all add: py_int_def is_space_def is_digit_def digit_val_def)


text \<open>
  Each fetcher records exactly its own entry; the loop and the random draws record none.
\<close>

lemma calls_get_coordinates:
  "calls (snd (get_coordinates e s c)) = calls s @ [GetCoordinates c]"
  by (simp add: get_coordinates_def enter_def Let_def split: geo_reply.splits)

lemma get_coordinates_absent:
  "geocode e c = GeoNone \<or> geocode e c = GeoError \<Longrightarrow>
   get_coordinates e s c = ((None, None), enter (GetCoordinates c) s)"
  by (auto simp: get_coordinates_def Let_def)

lemma calls_get_current_weather:
  "calls (snd (get_current_weather e s a b)) = calls s @ [GetCurrentWeather a b]"
  by (simp add: get_current_weather_def enter_def draw_def raising_def Let_def
      split: http_reply.splits sum.splits)

lemma calls_entry_or_uniform: "calls (snd (entry_or_uniform e s xs i a b)) = calls s"
  by (simp add: entry_or_uniform_def raising_def draw_def split: sum.splits)

lemma calls_hourly_loop: "calls (snd (hourly_loop e t ws wd ixs s acc)) = calls s"
proof (induction ixs arbitrary: s acc)
  case Nil
  show ?case by simp
next
  case (Cons i rest)
  show ?case
  proof (cases "py_getitem t i")
    case (Inl err)
    then show ?thesis by (simp add: raising_def)
  next
    case (Inr time_str)
    obtain r1 s1 where e1: "entry_or_uniform e s ws i (5 - 2) (5 + 3) = (r1, s1)"
      by (cases "entry_or_uniform e s ws i (5 - 2) (5 + 3)")
    have c1: "calls s1 = calls s"
      using calls_entry_or_uniform [of e s ws i "5 - 2" "5 + 3"] e1 by simp
    show ?thesis
    proof (cases r1)
      case (Inl err)
      with Inr e1 c1 show ?thesis by (simp add: raising_def)
    next
      case speed: (Inr wind_speed)
      obtain r2 s2 where e2: "entry_or_uniform e s1 wd i 0 360 = (r2, s2)"
        by (cases "entry_or_uniform e s1 wd i 0 360")
      have c2: "calls s2 = calls s"
        using calls_entry_or_uniform [of e s1 wd i 0 360] e2 c1 by simp
      show ?thesis
      proof (cases r2)
        case (Inl err)
        with Inr speed e1 e2 c2 show ?thesis by (simp add: raising_def)
      next
        case dir: (Inr wind_direction)
        with Inr speed e1 e2 c2 Cons.IH [of s2] show ?thesis by (simp add: raising_def)
      qed
    qed
  qed
qed

lemma calls_get_hourly_weather:
  "calls (snd (get_hourly_weather e s a b n)) = calls s @ [GetHourlyWeather a b n]"
proof -
  have loop: "calls (snd (case hourly_loop e t ws wd ixs s1 [] of
                 (Inl err, s2) \<Rightarrow> (Inl err, s2)
               | (Inr hourly_weather, s2) \<Rightarrow> (Inr (Some hourly_weather), s2))) = calls s1"
    for t ws wd ixs and s1 :: world
    using calls_hourly_loop [of e t ws wd ixs s1 "[]"]
    by (cases "hourly_loop e t ws wd ixs s1 []") (auto split: sum.splits)
  show ?thesis
    by (simp add: get_hourly_weather_def raising_def Let_def loop enter_def
        split: http_reply.splits sum.splits)
qed

lemma hourly_loop_length:
  "hourly_loop e t ws wd ixs s acc = (Inr hw, s') \<Longrightarrow>
   \<exists>pts. hw = acc @ pts \<and> length pts = length ixs"
proof (induction ixs arbitrary: s acc)
  case Nil
  then show ?case by simp
next
  case (Cons i rest)
  from Cons.prems obtain time_str wind_speed wind_direction s2 where
    "hourly_loop e t ws wd rest s2
       (acc @ [\<lparr>hp_time = time_str, hp_wind_speed = wind_speed,
                hp_wind_direction = wind_direction\<rparr>]) = (Inr hw, s')"
    by (auto simp: raising_def split: sum.splits prod.splits)
  from Cons.IH [OF this] show ?case by auto
qed

text \<open>The handler once the city has been located, and what every run with both
  parameters present has in common.\<close>

lemma handler_located:
  assumes "query request ''city'' = Some city_name"
    and "query request ''hour'' = Some end_hour"
    and "get_coordinates e s city_name = ((Some latitude, Some longitude), s1)"
  shows "handler e s request =
     (case get_current_weather e s1 latitude longitude of
        (Inl err, s2) \<Rightarrow> (Inl err, s2)
      | (Inr None, s2) \<Rightarrow>
          (Inr \<lparr>statusCode = 500, body = Message ''Error fetching current weather data.''\<rparr>, s2)
      | (Inr (Some current_weather), s2) \<Rightarrow>
          raising (py_int (int_max_str_digits e) end_hour) s2 (\<lambda>n.
            case get_hourly_weather e s2 latitude longitude n of
              (Inl err, s3) \<Rightarrow> (Inl err, s3)
            | (Inr None, s3) \<Rightarrow>
                (Inr \<lparr>statusCode = 500,
                      body = Message ''Error fetching hourly weather data.''\<rparr>, s3)
            | (Inr (Some hourly_weather), s3) \<Rightarrow>
                (Inr \<lparr>statusCode = 200,
                      body = Weather current_weather hourly_weather\<rparr>, s3)))"
  using assms by (simp add: handler_def)

lemma get_coordinates_world:
  "get_coordinates e s c = (r, s1) \<Longrightarrow> s1 = enter (GetCoordinates c) s"
  by (auto simp: get_coordinates_def Let_def split: geo_reply.splits)

lemma py_int_error: "py_int limit h = Inl err \<Longrightarrow> err = ValueError"
  by (auto simp: py_int_def Let_def split: list.splits if_splits option.splits)

lemma handler_present:
  assumes "query request ''city'' = Some city_name"
    and "query request ''hour'' = Some end_hour"
  shows "(\<exists>rest. calls (snd (handler e s request)) =
            calls s @ GetCoordinates city_name # rest) \<and>
         (\<forall>r. fst (handler e s request) = Inr r \<longrightarrow> statusCode r \<noteq> 400)"
proof -
  obtain lat lon s1 where g: "get_coordinates e s city_name = ((lat, lon), s1)"
    by (cases "get_coordinates e s city_name") auto
  have c1: "calls s1 = calls s @ [GetCoordinates city_name]"
    using calls_get_coordinates [of e s city_name] g by simp
  show ?thesis
  proof (cases "\<exists>a b. lat = Some a \<and> lon = Some b")
    case False
    then have "handler e s request =
        (Inr \<lparr>statusCode = 404, body = Message ''City not found.''\<rparr>, s1)"
      using assms g by (auto simp: handler_def split: option.splits)
    with c1 show ?thesis by simp
  next
    case True
    then obtain a b where ab: "lat = Some a" "lon = Some b" by blast
    note h = handler_located [OF assms g [unfolded ab]]
    obtain r2 s2 where cur: "get_current_weather e s1 a b = (r2, s2)"
      by (cases "get_current_weather e s1 a b")
    have c2: "calls s2 = calls s @ [GetCoordinates city_name, GetCurrentWeather a b]"
      using calls_get_current_weather [of e s1 a b] cur c1 by simp
    show ?thesis
    proof (cases "\<exists>cw n. r2 = Inr (Some cw) \<and> py_int (int_max_str_digits e) end_hour = Inr n")
      case False
      then show ?thesis
        using h cur c2
        by (cases r2; cases "py_int (int_max_str_digits e) end_hour")
           (auto simp: raising_def split: option.splits)
    next
      case True
      then obtain cw n where cw: "r2 = Inr (Some cw)" and n: "py_int (int_max_str_digits e) end_hour = Inr n"
        by blast
      obtain r3 s3 where hr: "get_hourly_weather e s2 a b n = (r3, s3)"
        by (cases "get_hourly_weather e s2 a b n")
      have c3: "calls s3 = calls s @ [GetCoordinates city_name, GetCurrentWeather a b,
                                      GetHourlyWeather a b n]"
        using calls_get_hourly_weather [of e s2 a b n] hr c2 by simp
      show ?thesis
        using h cur cw n hr c3
        by (cases r3) (auto simp: raising_def split: option.splits)
    qed
  qed
qed

text \<open>How many points a successful hourly fetch returns.\<close>

lemma length_py_range: "length (py_range k) = nat k"
  by (simp add: py_range_def)

lemma get_hourly_weather_length:
  assumes "get_hourly_weather e s a b n = (Inr (Some hw), s')"
  shows "\<exists>m. length hw = nat (min (n + 1) (int m))"
proof -
  from assms obtain t ws wd m s1 where
    loop: "hourly_loop e t ws wd (py_range (min (n + 1) (int m))) s1 [] = (Inr hw, s')"
    by (auto simp: get_hourly_weather_def raising_def Let_def
        split: http_reply.splits sum.splits prod.splits)
  from hourly_loop_length [OF loop] show ?thesis
    by (auto simp: length_py_range)
qed

subsection \<open>Binary64 rounding and the random module within its contract\<close>

text \<open>
  Rounding to 53 bits never crosses a number that has at most 53 bits itself
  (\<open>fl_nat_le\<close>, \<open>fl_nat_ge\<close>), which bounds both results of \<^verbatim>\<open>random.uniform\<close>;
  for the direction, the product \<open>360 * random()\<close> stays more than half a unit in the
  last place below 360, so it rounds to a float below 360.
\<close>

declare bit_length.simps [simp del]

lemma bit_length_less: "n < 2 ^ bit_length n"
proof (induction n rule: bit_length.induct)
  case (1 n)
  show ?case
  proof (cases "n = 0")
    case True
    then show ?thesis by (simp add: bit_length.simps)
  next
    case False
    with 1 have "n div 2 < 2 ^ bit_length (n div 2)" by simp
    then have "n < 2 * 2 ^ bit_length (n div 2)" by linarith
    with False show ?thesis by (simp add: bit_length.simps [of n])
  qed
qed

lemma bit_length_ge: "n \<noteq> 0 \<Longrightarrow> 2 ^ (bit_length n - 1) \<le> n"
proof (induction n rule: bit_length.induct)
  case (1 n)
  show ?case
  proof (cases "n div 2 = 0")
    case True
    with 1(2) have "n = 1" by linarith
    then show ?thesis by (simp add: bit_length.simps)
  next
    case False
    with 1 have ih: "2 ^ (bit_length (n div 2) - 1) \<le> n div 2" by simp
    from False have pos: "0 < bit_length (n div 2)"
      by (simp add: bit_length.simps [of "n div 2"])
    have "bit_length n = Suc (bit_length (n div 2))"
      using 1(2) by (simp add: bit_length.simps [of n])
    then have "2 ^ (bit_length n - 1) = 2 * 2 ^ (bit_length (n div 2) - 1)"
      using pos by (cases "bit_length (n div 2)") simp_all
    also have "\<dots> \<le> 2 * (n div 2)" using ih by simp
    also have "\<dots> \<le> n" by simp
    finally show ?thesis .
  qed
qed

lemma bit_length_le: "n < 2 ^ k \<Longrightarrow> bit_length n \<le> k"
proof (rule ccontr)
  assume lt: "n < 2 ^ k" and "\<not> bit_length n \<le> k"
  then have k: "k \<le> bit_length n - 1" and n0: "n \<noteq> 0"
    by (auto simp: bit_length.simps [of n] split: if_splits)
  have "(2::nat) ^ k \<le> 2 ^ (bit_length n - 1)"
    using k by (intro power_increasing) simp_all
  with bit_length_ge [OF n0] lt show False by linarith
qed

lemma bit_length_gt: "2 ^ k \<le> n \<Longrightarrow> k < bit_length n"
proof (rule ccontr)
  assume ge: "2 ^ k \<le> n" and "\<not> k < bit_length n"
  then have "(2::nat) ^ bit_length n \<le> 2 ^ k"
    by (intro power_increasing) simp_all
  with bit_length_less [of n] ge show False by linarith
qed


lemma round_shift_le: "n \<le> N * 2 ^ d \<Longrightarrow> round_shift n d \<le> N"
proof -
  assume le: "n \<le> N * 2 ^ d"
  have q: "n div 2 ^ d \<le> N"
    using le by (metis div_le_mono nonzero_mult_div_cancel_right power_not_zero
        zero_neq_numeral)
  show ?thesis
  proof (cases "n div 2 ^ d = N")
    case False
    with q show ?thesis by (simp add: round_shift_def Let_def)
  next
    case True
    have "n = n div 2 ^ d * 2 ^ d + n mod 2 ^ d" by (rule div_mult_mod_eq [symmetric])
    with True le have "n mod 2 ^ d = 0" by simp
    with True show ?thesis by (simp add: round_shift_def Let_def)
  qed
qed

lemma round_shift_ge: "N * 2 ^ d \<le> n \<Longrightarrow> N \<le> round_shift n d"
proof -
  assume "N * 2 ^ d \<le> n"
  then have "N \<le> n div 2 ^ d"
    by (metis div_le_mono nonzero_mult_div_cancel_right power_not_zero zero_neq_numeral)
  then show ?thesis by (simp add: round_shift_def Let_def)
qed

lemma round_shift_less: "2 * n + 2 ^ d < 2 * N * 2 ^ d \<Longrightarrow> round_shift n d < N"
proof -
  assume "2 * n + 2 ^ d < 2 * N * 2 ^ d"
  then have lt: "2 * n + 2 ^ d < 2 * (N * 2 ^ d)" by (simp add: mult.assoc)
  let ?q = "n div 2 ^ d" and ?r = "n mod 2 ^ d"
  have n: "n = ?q * 2 ^ d + ?r" by (rule div_mult_mod_eq [symmetric])
  from lt have "n < N * 2 ^ d" by linarith
  then have q: "?q < N" by (rule less_mult_imp_div_less)
  show ?thesis
  proof (cases "Suc ?q = N")
    case False
    with q show ?thesis by (simp add: round_shift_def Let_def)
  next
    case True
    define A P r where defs: "A = ?q * 2 ^ d" "P = (2::nat) ^ d" "r = ?r"
    have "N * P = A + P" by (simp add: True [symmetric] defs)
    moreover have "2 * n + P < 2 * (N * P)" using lt by (simp add: defs)
    moreover have "n = A + r" using n by (simp add: defs)
    ultimately have "2 * r < P" by linarith
    then have "2 * ?r < 2 ^ d" by (simp add: defs)
    with q show ?thesis by (simp add: round_shift_def Let_def)
  qed
qed


lemma pow53_cap:
  assumes "C \<le> 2 ^ 53" and "t < d"
  shows "C * 2 ^ t \<le> 2 ^ 52 * (2::nat) ^ d"
proof -
  have "C * 2 ^ t \<le> 2 ^ 53 * 2 ^ t"
    using assms(1) by (rule mult_le_mono1)
  also have "\<dots> = 2 ^ (53 + t)" by (simp only: power_add)
  also have "\<dots> \<le> 2 ^ (52 + d)"
    using assms(2) by (intro power_increasing) simp_all
  also have "\<dots> = 2 ^ 52 * 2 ^ d" by (simp only: power_add)
  finally show ?thesis .
qed

lemma bit_length_53:
  assumes "0 < bit_length n - 53"
  shows "2 ^ 52 * 2 ^ (bit_length n - 53) \<le> n"
proof -
  from assms have n0: "n \<noteq> 0"
    by (cases "n = 0") (simp_all add: bit_length.simps [of 0])
  from assms have eq: "bit_length n - 1 = 52 + (bit_length n - 53)" by linarith
  have "2 ^ (bit_length n - 1) \<le> n" by (rule bit_length_ge [OF n0])
  then have "2 ^ (52 + (bit_length n - 53)) \<le> n" by (simp only: eq)
  then show ?thesis by (simp only: power_add)
qed

lemma fl_nat_le:
  assumes "C \<le> 2 ^ 53" and "n \<le> C * 2 ^ t"
  shows "fl_nat n \<le> C * 2 ^ t"
proof -
  define d where "d = bit_length n - 53"
  have fl: "fl_nat n = round_shift n d * 2 ^ d"
    by (simp add: fl_nat_def d_def Let_def)
  show ?thesis
  proof (cases "d \<le> t")
    case True
    then have split: "C * 2 ^ t = (C * 2 ^ (t - d)) * 2 ^ d"
      by (simp add: power_add [symmetric])
    with assms(2) have "round_shift n d \<le> C * 2 ^ (t - d)"
      by (intro round_shift_le) simp
    then have "round_shift n d * 2 ^ d \<le> (C * 2 ^ (t - d)) * 2 ^ d"
      by (rule mult_le_mono1)
    then show ?thesis by (simp only: fl split)
  next
    case False
    then have td: "t < d" by simp
    note top = pow53_cap [OF assms(1) td]
    from td have low: "2 ^ 52 * 2 ^ d \<le> n"
      unfolding d_def by (intro bit_length_53) simp
    from assms(2) top have "n \<le> 2 ^ 52 * 2 ^ d" by (rule order_trans)
    then have "round_shift n d \<le> 2 ^ 52" by (rule round_shift_le)
    then have "round_shift n d * 2 ^ d \<le> 2 ^ 52 * 2 ^ d" by (rule mult_le_mono1)
    also note low
    also note assms(2)
    finally show ?thesis by (simp only: fl)
  qed
qed

lemma fl_nat_ge:
  assumes "C \<le> 2 ^ 53" and "C * 2 ^ t \<le> n"
  shows "C * 2 ^ t \<le> fl_nat n"
proof -
  define d where "d = bit_length n - 53"
  have fl: "fl_nat n = round_shift n d * 2 ^ d"
    by (simp add: fl_nat_def d_def Let_def)
  show ?thesis
  proof (cases "d \<le> t")
    case True
    then have split: "C * 2 ^ t = (C * 2 ^ (t - d)) * 2 ^ d"
      by (simp add: power_add [symmetric])
    with assms(2) have "C * 2 ^ (t - d) \<le> round_shift n d"
      by (intro round_shift_ge) simp
    then have "(C * 2 ^ (t - d)) * 2 ^ d \<le> round_shift n d * 2 ^ d"
      by (rule mult_le_mono1)
    then show ?thesis by (simp only: fl split)
  next
    case False
    then have td: "t < d" by simp
    note pow53_cap [OF assms(1) td]
    also from td have low: "2 ^ 52 * 2 ^ d \<le> n"
      unfolding d_def by (intro bit_length_53) simp
    then have "2 ^ 52 \<le> round_shift n d" by (rule round_shift_ge)
    then have "2 ^ 52 * 2 ^ d \<le> round_shift n d * 2 ^ d" by (rule mult_le_mono1)
    finally show ?thesis by (simp only: fl)
  qed
qed


lemma fl_nat_exact: "n < 2 ^ 53 \<Longrightarrow> fl_nat n = n"
proof -
  assume "n < 2 ^ 53"
  then have "bit_length n - 53 = 0"
    using bit_length_le [of n 53] by simp
  then show ?thesis by (simp add: fl_nat_def round_shift_def Let_def)
qed

lemma fl_int_nat: "fl_int (int n) = int (fl_nat n)"
  by (simp add: fl_int_def)

lemma uniform_nat:
  "uniform e k (int a) (int a + int c) =
     real (fl_nat (fl_nat a * 2 ^ 53 + fl_nat (fl_nat c * random_bits e k))) / 2 ^ 53"
proof -
  have 1: "fl_int (int a + int c - int a) = int (fl_nat c)"
    by (simp add: fl_int_nat)
  have 2: "fl_int (int (fl_nat c) * int (random_bits e k))
             = int (fl_nat (fl_nat c * random_bits e k))"
    by (simp only: fl_int_nat of_nat_mult [symmetric])
  have 3: "fl_int (int (fl_nat a) * 2 ^ 53 + int (fl_nat (fl_nat c * random_bits e k)))
             = int (fl_nat (fl_nat a * 2 ^ 53 + fl_nat (fl_nat c * random_bits e k)))"
    using fl_int_nat [of "fl_nat a * 2 ^ 53 + fl_nat (fl_nat c * random_bits e k)"]
    by simp
  show ?thesis
    unfolding uniform_def 1 2 fl_int_nat 3 by simp
qed

lemma uniform_3_8:
  assumes "random_ok e"
  shows "3 \<le> uniform e k 3 8 \<and> uniform e k 3 8 \<le> 8"
proof -
  define m where "m = random_bits e k"
  have m: "m < 2 ^ 53" using assms by (simp add: random_ok_def m_def)
  define P where "P = fl_nat (5 * m)"
  define S where "S = fl_nat (3 * 2 ^ 53 + P)"
  have u: "uniform e k 3 8 = real S / 2 ^ 53"
    using uniform_nat [of e k 3 5]
    by (simp add: fl_nat_exact m_def P_def S_def)
  have "5 * m \<le> 5 * 2 ^ 53" using m by simp
  then have P: "P \<le> 5 * 2 ^ 53"
    unfolding P_def by (intro fl_nat_le) simp_all
  then have "3 * 2 ^ 53 + P \<le> 1 * 2 ^ 56" by simp
  then have "S \<le> 1 * 2 ^ 56"
    unfolding S_def by (intro fl_nat_le) simp_all
  then have hi: "real S \<le> 8 * 2 ^ 53"
    by (simp add: of_nat_le_iff [symmetric] del: of_nat_le_iff)
  have "3 * 2 ^ 53 \<le> 3 * 2 ^ 53 + P" by simp
  then have "3 * 2 ^ 53 \<le> S"
    unfolding S_def by (intro fl_nat_ge) simp_all
  then have lo: "3 * 2 ^ 53 \<le> real S"
    by (simp add: of_nat_le_iff [symmetric] del: of_nat_le_iff)
  from lo hi show ?thesis
    by (simp add: u field_simps)
qed


lemma uniform_0_360:
  assumes "random_ok e"
  shows "0 \<le> uniform e k 0 360 \<and> uniform e k 0 360 < 360"
proof -
  define m where "m = random_bits e k"
  have m: "m < 2 ^ 53" using assms by (simp add: random_ok_def m_def)
  define P where "P = fl_nat (360 * m)"
  define S where "S = fl_nat P"
  define N :: nat where "N = 360 * 2 ^ 44"
  have u: "uniform e k 0 360 = real S / 2 ^ 53"
    using uniform_nat [of e k 0 360]
    by (simp add: fl_nat_exact m_def P_def S_def)
  have P: "P \<le> (N - 1) * 2 ^ 9"
  proof (cases "360 * m < 2 ^ 61")
    case True
    then have "360 * m \<le> 2 ^ 53 * 2 ^ 8" by simp
    then have "P \<le> 2 ^ 53 * 2 ^ 8"
      unfolding P_def by (intro fl_nat_le) simp_all
    then show ?thesis by (simp add: N_def)
  next
    case False
    then have "2 ^ 61 \<le> 360 * m" by simp
    then have "61 < bit_length (360 * m)" by (rule bit_length_gt)
    moreover have "360 * m < 2 ^ 62" using m by simp
    then have "bit_length (360 * m) \<le> 62" by (rule bit_length_le)
    ultimately have d: "bit_length (360 * m) - 53 = 9" by simp
    have "2 * (360 * m) + 2 ^ 9 < 2 * N * 2 ^ 9"
      using m by (simp add: N_def)
    then have "round_shift (360 * m) 9 < N" by (rule round_shift_less)
    then have "round_shift (360 * m) 9 \<le> N - 1" by simp
    then have "round_shift (360 * m) 9 * 2 ^ 9 \<le> (N - 1) * 2 ^ 9"
      by (rule mult_le_mono1)
    then show ?thesis
      by (simp only: P_def fl_nat_def Let_def d)
  qed
  have "N - 1 \<le> 2 ^ 53" by (simp add: N_def)
  from this P have "S \<le> (N - 1) * 2 ^ 9"
    unfolding S_def by (rule fl_nat_le)
  then have "real S \<le> real ((N - 1) * 2 ^ 9)"
    by (simp only: of_nat_le_iff)
  also have "\<dots> < 360 * 2 ^ 53" by (simp add: N_def)
  finally have "real S < 360 * 2 ^ 53" .
  then show ?thesis
    by (simp add: u field_simps)
qed

lemma uniform_sample_values:
  "uniform sample_env 0 0 360 = 180"
  "uniform sample_env 1 3 8 = 8 - 1 / 2 ^ 50"
  "uniform sample_env 2 0 360 = 360 - 1 / 2 ^ 44"
  by (simp_all add: uniform_def fl_int_def fl_nat_def round_shift_def Let_def
      sample_env_def bit_length.simps)

lemma randint_range:
  assumes "random_ok e" and "a \<le> b"
  shows "a \<le> randint e k a b \<and> randint e k a b \<le> b"
proof -
  have "0 < b - a + 1" using assms(2) by simp
  with assms(1) have "0 \<le> randbelow e k (b - a + 1) \<and> randbelow e k (b - a + 1) < b - a + 1"
    unfolding random_ok_def by blast
  then show ?thesis by (simp add: randint_def)
qed

text \<open>
  The loop on a payload whose arrays are lists: the timestamps are copied in index order,
  each wind field is the array entry where there is one and the next draw otherwise
  (\<open>hourly_loop_arrays\<close> gives every point in closed form), and no index within the
  timestamps makes the loop fail.
\<close>

lemma entry_or_uniform_array:
  "entry_or_uniform e s (JArr xs) i a b =
     (if i < length xs then (Inr (xs ! i), s)
      else (Inr (JFloat (uniform e (draws s) a b)), draw s))"
  by (simp add: entry_or_uniform_def raising_def)

lemma hourly_loop_times:
  "hourly_loop e (JArr ts) ws wd ixs s acc = (Inr hw, s') \<Longrightarrow>
   \<exists>pts. hw = acc @ pts \<and> map hp_time pts = map (\<lambda>i. ts ! i) ixs"
proof (induction ixs arbitrary: s acc)
  case Nil
  then show ?case by simp
next
  case (Cons i rest)
  from Cons.prems obtain wind_speed wind_direction s2 where
    "hourly_loop e (JArr ts) ws wd rest s2
       (acc @ [\<lparr>hp_time = ts ! i, hp_wind_speed = wind_speed,
                hp_wind_direction = wind_direction\<rparr>]) = (Inr hw, s')"
    by (auto simp: raising_def split: sum.splits prod.splits if_splits)
  from Cons.IH [OF this] show ?case by auto
qed

lemma hourly_loop_arrays:
  assumes "hourly_loop e (JArr ts) (JArr ws) (JArr wd) [lo ..< hi] s acc = (Inr hw, s')"
    and "draws s = d0 + (lo - length ws) + (lo - length wd)"
  shows "hw = acc @ map (\<lambda>i.
     \<lparr>hp_time = ts ! i,
      hp_wind_speed =
        (if i < length ws then ws ! i
         else JFloat (uniform e (d0 + (i - length ws) + (i - length wd)) (5 - 2) (5 + 3))),
      hp_wind_direction =
        (if i < length wd then wd ! i
         else JFloat (uniform e (d0 + (i - length ws) + (i - length wd)
                                   + (if i < length ws then 0 else 1)) 0 360))\<rparr>)
     [lo ..< hi]"
  using assms
proof (induction "hi - lo" arbitrary: lo s acc)
  case 0
  then show ?case by simp
next
  case (Suc n)
  then have lt: "lo < hi" and n: "n = hi - Suc lo" by simp_all
  define k0 where "k0 = d0 + (lo - length ws) + (lo - length wd)"
  have ds: "draws s = k0" using Suc.prems(2) by (simp add: k0_def)
  let ?speed = "if lo < length ws then ws ! lo else JFloat (uniform e k0 (5 - 2) (5 + 3))"
  let ?dir = "if lo < length wd then wd ! lo
     else JFloat (uniform e (k0 + (if lo < length ws then 0 else 1)) 0 360)"
  let ?p = "\<lparr>hp_time = ts ! lo, hp_wind_speed = ?speed, hp_wind_direction = ?dir\<rparr>"
  let ?s1 = "if lo < length ws then s else draw s"
  let ?s2 = "if lo < length wd then ?s1 else draw ?s1"
  have d2: "draws ?s2 = d0 + (Suc lo - length ws) + (Suc lo - length wd)"
    using ds by (auto simp: draw_def k0_def)
  from Suc.prems(1) lt
  have step: "hourly_loop e (JArr ts) (JArr ws) (JArr wd) [Suc lo ..< hi] ?s2 (acc @ [?p])
      = (Inr hw, s')"
    by (simp add: upt_conv_Cons raising_def entry_or_uniform_array ds draw_def
        split: if_splits)
  from Suc.hyps(1) [OF n step d2] lt show ?case
    by (simp add: upt_conv_Cons k0_def)
qed

lemma hourly_loop_total:
  "\<forall>i \<in> set ixs. i < length ts \<Longrightarrow>
   \<exists>hw s'. hourly_loop e (JArr ts) (JArr ws) (JArr wd) ixs s acc = (Inr hw, s')"
proof (induction ixs arbitrary: s acc)
  case Nil
  show ?case by simp
next
  case (Cons i rest)
  then have i: "i < length ts" and r: "\<forall>i \<in> set rest. i < length ts" by simp_all
  show ?case
    using Cons.IH [OF r] i
    by (simp add: raising_def entry_or_uniform_array)
qed

text \<open>The two fetchers on a payload of the expected shape.\<close>

lemma get_hourly_weather_payload:
  assumes "forecast_hourly e a b (today e) = Json data"
    and "py_get data ''hourly'' (JObj []) = Inr hourly_data"
    and "py_get hourly_data ''time'' (JArr []) = Inr (JArr ts)"
  shows "\<exists>ws wd.
     py_get hourly_data ''windspeed_10m'' (JArr []) = Inr ws \<and>
     py_get hourly_data ''winddirection_10m'' (JArr []) = Inr wd \<and>
     get_hourly_weather e s a b n =
       (case hourly_loop e (JArr ts) ws wd (py_range (min (n + 1) (int (length ts))))
               (enter (GetHourlyWeather a b n) s) [] of
          (Inl err, s2) \<Rightarrow> (Inl err, s2)
        | (Inr hw, s2) \<Rightarrow> (Inr (Some hw), s2))"
proof -
  from assms(3) obtain kvs where "hourly_data = JObj kvs"
    by (cases hourly_data) simp_all
  with assms show ?thesis
    by (simp add: get_hourly_weather_def raising_def Let_def)
qed

lemma take_as_map_nth: "k \<le> length xs \<Longrightarrow> map (\<lambda>i. xs ! i) [0 ..< k] = take k xs"
  by (simp add: list_eq_iff_nth_eq)

lemma py_range_upt: "py_range k = [0 ..< nat k]"
  by (simp add: py_range_def)

lemma get_current_weather_payload:
  assumes "forecast_current e a b = Json data"
    and "py_get data ''current_weather'' (JObj []) = Inr (JObj kvs)"
  shows "get_current_weather e s a b =
     (Inr (Some \<lparr>cw_date = now_stamp e,
         cw_temperature = (case map_of kvs ''temperature'' of
                             None \<Rightarrow> JStr ''N/A'' | Some v \<Rightarrow> v),
         cw_wind_speed = (case map_of kvs ''windspeed'' of
                            None \<Rightarrow> JStr ''N/A'' | Some v \<Rightarrow> v),
         cw_wind_direction = (case map_of kvs ''winddirection'' of
                                None \<Rightarrow> JStr ''N/A'' | Some v \<Rightarrow> v),
         cw_humidity = (case map_of kvs ''relative_humidity'' of
                          None \<Rightarrow> JInt (randint e (draws s) 30 90) | Some v \<Rightarrow> v),
         cw_pressure = (case map_of kvs ''pressure_msl'' of
                          None \<Rightarrow> JInt (randint e (Suc (draws s)) 980 1050) | Some v \<Rightarrow> v)\<rparr>),
      draw (draw (enter (GetCurrentWeather a b) s)))"
  using assms
  by (simp add: get_current_weather_def raising_def Let_def enter_def draw_def
      split: option.splits)

lemma sample_env_hourly:
  "forecast_hourly sample_env 30 lon (today sample_env) = Json short_hourly"
  by (simp add: sample_env_def)

lemma padded_hour_served:
  "fst (handler sample_env world0 (req ''Pune'' ([CHR 0xA0] @ ''0''))) =
     Inr \<lparr>statusCode = 200,
          body = Weather
            \<lparr>cw_date = ''2024-05-01 10:15:00'', cw_temperature = JFloat 29.4,
              cw_wind_speed = JFloat 7.2, cw_wind_direction = JInt 240,
              cw_humidity = JInt 30, cw_pressure = JInt 981\<rparr>
            [\<lparr>hp_time = JStr ''2024-05-01T00:00'', hp_wind_speed = JFloat 4.5,
               hp_wind_direction = JInt 200\<rparr>]\<rparr>"
  by (simp add: handler_def get_coordinates_def get_current_weather_def
      get_hourly_weather_def entry_or_uniform_def enter_def draw_def raising_def randint_def
      py_range_def sample_env_def sample_current_def sample_hourly_def
      sample_hourly_data_def sample_times_def sample_speeds_def sample_directions_def
      world0_def req_def py_int_def is_space_def is_digit_def digit_val_def Let_def)

lemmas py_int_eval = py_int_def is_space_def is_digit_def digit_val_def
lemmas sample_defs = sample_env_def sample_current_def humid_current_def sample_hourly_def
  sample_hourly_data_def short_hourly_def short_hourly_data_def sample_times_def
  sample_speeds_def sample_directions_def world0_def req_def
lemmas run_defs = handler_def get_coordinates_def get_current_weather_def
  get_hourly_weather_def entry_or_uniform_def enter_def draw_def raising_def randint_def
  py_range_def

section \<open>The handler's validation and error mapping\<close>

text \<open>
  Claim C2. Whenever the \<^verbatim>\<open>city\<close> parameter or the \<^verbatim>\<open>hour\<close> parameter is absent
  from the query, whatever the other one is, the handler answers status 400 with the fixed
  message, and the world is returned as it was: no collaborator has been entered and no
  random number drawn.
\<close>

theorem C2_missing_parameter:
  assumes "query request ''city'' = None \<or> query request ''hour'' = None"
  shows "handler e s request =
           (Inr \<lparr>statusCode = 400, body = Message missing_params\<rparr>, s)"
  using assms by (auto simp: handler_def split: option.splits)

theorem C2_missing_parameter_witness:
  "(query \<lparr>query = [''hour'' \<mapsto> ''3'']\<rparr> ''city'' = None \<or>
    query \<lparr>query = [''hour'' \<mapsto> ''3'']\<rparr> ''hour'' = None) \<and>
   handler sample_env world0 \<lparr>query = [''hour'' \<mapsto> ''3'']\<rparr> =
     (Inr \<lparr>statusCode = 400, body = Message missing_params\<rparr>, world0) \<and>
   (query \<lparr>query = [''city'' \<mapsto> ''Pune'']\<rparr> ''city'' = None \<or>
    query \<lparr>query = [''city'' \<mapsto> ''Pune'']\<rparr> ''hour'' = None) \<and>
   handler sample_env world0 \<lparr>query = [''city'' \<mapsto> ''Pune'']\<rparr> =
     (Inr \<lparr>statusCode = 400, body = Message missing_params\<rparr>, world0)"
  using C2_missing_parameter [of "\<lparr>query = [''hour'' \<mapsto> ''3'']\<rparr>" sample_env world0]
    C2_missing_parameter [of "\<lparr>query = [''city'' \<mapsto> ''Pune'']\<rparr>" sample_env world0]
  by simp

text \<open>
  Claim C3. When both parameters are present and the geocoder finds no match or raises,
  the handler answers status 404, and the only function entered is \<^verbatim>\<open>get_coordinates\<close>:
  neither fetcher is called.
\<close>

theorem C3_geocoder_absent:
  assumes "query request ''city'' = Some city_name"
    and "query request ''hour'' = Some end_hour"
    and "geocode e city_name = GeoNone \<or> geocode e city_name = GeoError"
  shows "fst (handler e s request) =
           Inr \<lparr>statusCode = 404, body = Message ''City not found.''\<rparr> \<and>
         calls (snd (handler e s request)) = calls s @ [GetCoordinates city_name]"
  using assms get_coordinates_absent [of e city_name s]
  by (auto simp: handler_def enter_def)

theorem C3_geocoder_absent_witness:
  "query (req ''Atlantis'' ''abc'') ''city'' = Some ''Atlantis'' \<and>
   query (req ''Atlantis'' ''abc'') ''hour'' = Some ''abc'' \<and>
   geocode sample_env ''Atlantis'' = GeoNone \<and>
   query (req ''Mars'' ''7'') ''city'' = Some ''Mars'' \<and>
   query (req ''Mars'' ''7'') ''hour'' = Some ''7'' \<and>
   geocode sample_env ''Mars'' = GeoError \<and>
   fst (handler sample_env world0 (req ''Atlantis'' ''abc'')) =
     Inr \<lparr>statusCode = 404, body = Message ''City not found.''\<rparr> \<and>
   calls (snd (handler sample_env world0 (req ''Atlantis'' ''abc''))) =
     calls world0 @ [GetCoordinates ''Atlantis''] \<and>
   fst (handler sample_env world0 (req ''Mars'' ''7'')) =
     Inr \<lparr>statusCode = 404, body = Message ''City not found.''\<rparr> \<and>
   calls (snd (handler sample_env world0 (req ''Mars'' ''7''))) =
     calls world0 @ [GetCoordinates ''Mars'']"
proof -
  have a: "query (req ''Atlantis'' ''abc'') ''city'' = Some ''Atlantis''"
    and b: "query (req ''Atlantis'' ''abc'') ''hour'' = Some ''abc''"
    and c: "geocode sample_env ''Atlantis'' = GeoNone"
    and d: "query (req ''Mars'' ''7'') ''city'' = Some ''Mars''"
    and f: "query (req ''Mars'' ''7'') ''hour'' = Some ''7''"
    and g: "geocode sample_env ''Mars'' = GeoError"
    by (simp_all add: req_def sample_env_def)
  show ?thesis
    using a b c d f g
      C3_geocoder_absent [of "req ''Atlantis'' ''abc''" "''Atlantis''" "''abc''" sample_env world0]
      C3_geocoder_absent [of "req ''Mars'' ''7''" "''Mars''" "''7''" sample_env world0]
    by simp
qed

text \<open>
  Claim C4. With both parameters present and the city located: if the current-weather fetch
  returns absent, the handler answers status 500 and the call log holds the geocoder and the
  current-weather fetcher only, so the hourly fetcher was never entered; if the
  current-weather fetch succeeds and the hourly fetch, called with the parsed hour, returns
  absent, the handler answers status 500.
\<close>

theorem C4_fetch_failures:
  assumes "query request ''city'' = Some city_name"
    and "query request ''hour'' = Some end_hour"
    and "get_coordinates e s city_name = ((Some latitude, Some longitude), s1)"
  shows "(get_current_weather e s1 latitude longitude = (Inr None, s2) \<longrightarrow>
            handler e s request =
              (Inr \<lparr>statusCode = 500,
                    body = Message ''Error fetching current weather data.''\<rparr>, s2) \<and>
            calls s2 =
              calls s @ [GetCoordinates city_name, GetCurrentWeather latitude longitude]) \<and>
         (get_current_weather e s1 latitude longitude = (Inr (Some cw), s2) \<and>
          py_int (int_max_str_digits e) end_hour = Inr n \<and>
          get_hourly_weather e s2 latitude longitude n = (Inr None, s3) \<longrightarrow>
            handler e s request =
              (Inr \<lparr>statusCode = 500,
                    body = Message ''Error fetching hourly weather data.''\<rparr>, s3))"
proof (intro conjI impI)
  assume cur: "get_current_weather e s1 latitude longitude = (Inr None, s2)"
  show "handler e s request =
          (Inr \<lparr>statusCode = 500,
                body = Message ''Error fetching current weather data.''\<rparr>, s2)"
    by (simp add: handler_located [OF assms] cur)
  have "calls s1 = calls s @ [GetCoordinates city_name]"
    using calls_get_coordinates [of e s city_name] assms(3) by simp
  moreover have "calls s2 = calls s1 @ [GetCurrentWeather latitude longitude]"
    using calls_get_current_weather [of e s1 latitude longitude] cur by simp
  ultimately show "calls s2 =
      calls s @ [GetCoordinates city_name, GetCurrentWeather latitude longitude]"
    by simp
next
  assume "get_current_weather e s1 latitude longitude = (Inr (Some cw), s2) \<and>
          py_int (int_max_str_digits e) end_hour = Inr n \<and>
          get_hourly_weather e s2 latitude longitude n = (Inr None, s3)"
  then show "handler e s request =
          (Inr \<lparr>statusCode = 500,
                body = Message ''Error fetching hourly weather data.''\<rparr>, s3)"
    by (simp add: handler_located [OF assms] raising_Inr)
qed

theorem C4_fetch_failures_witness:
  "handler sample_env world0 (req ''Oslo'' ''abc'') =
     (Inr \<lparr>statusCode = 500, body = Message ''Error fetching current weather data.''\<rparr>,
      \<lparr>calls = [GetCoordinates ''Oslo'', GetCurrentWeather 59.9 10.7], draws = 0\<rparr>) \<and>
   handler sample_env world0 (req ''Lima'' ''2'') =
     (Inr \<lparr>statusCode = 500, body = Message ''Error fetching hourly weather data.''\<rparr>,
      \<lparr>calls = [GetCoordinates ''Lima'', GetCurrentWeather (-12) (-77),
                GetHourlyWeather (-12) (-77) 2], draws = 2\<rparr>)"
proof -
  let ?o1 = "\<lparr>calls = [GetCoordinates ''Oslo''], draws = 0\<rparr>"
  let ?o2 = "\<lparr>calls = [GetCoordinates ''Oslo'', GetCurrentWeather 59.9 10.7], draws = 0\<rparr>"
  have o_city: "query (req ''Oslo'' ''abc'') ''city'' = Some ''Oslo''"
    and o_hour: "query (req ''Oslo'' ''abc'') ''hour'' = Some ''abc''"
    and o_geo: "get_coordinates sample_env world0 ''Oslo'' = ((Some 59.9, Some 10.7), ?o1)"
    and o_cur: "get_current_weather sample_env ?o1 59.9 10.7 = (Inr None, ?o2)"
    by (simp_all add: run_defs sample_defs Let_def)
  let ?l1 = "\<lparr>calls = [GetCoordinates ''Lima''], draws = 0\<rparr>"
  let ?l2 = "\<lparr>calls = [GetCoordinates ''Lima'', GetCurrentWeather (-12) (-77)], draws = 2\<rparr>"
  let ?l3 = "\<lparr>calls = [GetCoordinates ''Lima'', GetCurrentWeather (-12) (-77),
                      GetHourlyWeather (-12) (-77) 2], draws = 2\<rparr>"
  let ?cw = "\<lparr>cw_date = ''2024-05-01 10:15:00'', cw_temperature = JFloat 29.4,
              cw_wind_speed = JFloat 7.2, cw_wind_direction = JInt 240,
              cw_humidity = JInt 30, cw_pressure = JInt 981\<rparr>"
  have l_city: "query (req ''Lima'' ''2'') ''city'' = Some ''Lima''"
    and l_hour: "query (req ''Lima'' ''2'') ''hour'' = Some ''2''"
    and l_geo: "get_coordinates sample_env world0 ''Lima'' = ((Some (-12), Some (-77)), ?l1)"
    and l_cur: "get_current_weather sample_env ?l1 (-12) (-77) = (Inr (Some ?cw), ?l2)"
    and l_int: "py_int (int_max_str_digits sample_env) ''2'' = Inr 2"
    and l_hourly: "get_hourly_weather sample_env ?l2 (-12) (-77) 2 = (Inr None, ?l3)"
    by (simp_all add: run_defs sample_defs py_int_eval Let_def)
  show ?thesis
    using C4_fetch_failures [OF o_city o_hour o_geo, of ?o2] o_cur
      C4_fetch_failures [OF l_city l_hour l_geo, of ?l2 ?cw 2 ?l3] l_cur l_int l_hourly
    by simp
qed

text \<open>
  Claim C9. The presence check only tests for absence: a request whose \<^verbatim>\<open>city\<close> is the
  empty string is passed to the geocoder, which is the next call recorded, and whatever
  response follows does not have status 400.
\<close>

theorem C9_empty_city_forwarded:
  assumes "query request ''city'' = Some []"
    and "query request ''hour'' = Some end_hour"
  shows "(\<exists>rest. calls (snd (handler e s request)) = calls s @ GetCoordinates [] # rest) \<and>
         (\<forall>r. fst (handler e s request) = Inr r \<longrightarrow> statusCode r \<noteq> 400)"
  using handler_present [OF assms] .

theorem C9_empty_city_forwarded_witness:
  "query (req [] ''1'') ''city'' = Some [] \<and>
   query (req [] ''1'') ''hour'' = Some ''1'' \<and>
   fst (handler sample_env world0 (req [] ''1'')) =
     Inr \<lparr>statusCode = 404, body = Message ''City not found.''\<rparr> \<and>
   (\<exists>rest. calls (snd (handler sample_env world0 (req [] ''1''))) =
      calls world0 @ GetCoordinates [] # rest) \<and>
   statusCode \<lparr>statusCode = 404, body = Message ''City not found.''\<rparr> \<noteq> 400"
proof -
  have a: "query (req [] ''1'') ''city'' = Some []"
    and b: "query (req [] ''1'') ''hour'' = Some ''1''"
    by (simp_all add: req_def)
  have run: "fst (handler sample_env world0 (req [] ''1'')) =
      Inr \<lparr>statusCode = 404, body = Message ''City not found.''\<rparr>"
    by (simp add: run_defs sample_defs Let_def)
  from C9_empty_city_forwarded [OF a b, of sample_env world0]
  have "(\<exists>rest. calls (snd (handler sample_env world0 (req [] ''1''))) =
            calls world0 @ GetCoordinates [] # rest) \<and>
        (fst (handler sample_env world0 (req [] ''1'')) =
            Inr \<lparr>statusCode = 404, body = Message ''City not found.''\<rparr> \<longrightarrow>
         statusCode \<lparr>statusCode = 404, body = Message ''City not found.''\<rparr> \<noteq> 400)"
    by blast
  with a b run show ?thesis by blast
qed

section \<open>The success path and the hour parameter\<close>

text \<open>
  Claim C1, amended. When both parameters are present, the city is located, the
  current-weather fetch succeeds, \<^verbatim>\<open>hour\<close> parses as an integer \<open>n\<close> and the hourly
  fetch succeeds, the handler answers status 200 with a body holding that one
  current-weather record and the hourly sequence, whose length is at most
  \<open>max 0 (n + 1)\<close>.

  As stated, with the bound \<open>hour + 1\<close> for every request that has both parameters, the
  claim fails for \<open>hour = -5\<close>: the answer is 200 with an empty sequence, and
  \<open>0 \<le> -4\<close> is false.
\<close>

theorem C1_success_response:
  assumes "query request ''city'' = Some city_name"
    and "query request ''hour'' = Some end_hour"
    and "get_coordinates e s city_name = ((Some latitude, Some longitude), s1)"
    and "get_current_weather e s1 latitude longitude = (Inr (Some cw), s2)"
    and "py_int (int_max_str_digits e) end_hour = Inr n"
    and "get_hourly_weather e s2 latitude longitude n = (Inr (Some hw), s3)"
  shows "handler e s request = (Inr \<lparr>statusCode = 200, body = Weather cw hw\<rparr>, s3) \<and>
         int (length hw) \<le> max 0 (n + 1)"
proof
  show "handler e s request = (Inr \<lparr>statusCode = 200, body = Weather cw hw\<rparr>, s3)"
    using assms(4-6) by (simp add: handler_located [OF assms(1-3)] raising_Inr)
  from get_hourly_weather_length [OF assms(6)]
  show "int (length hw) \<le> max 0 (n + 1)" by auto
qed

theorem C1_success_response_witness:
  "handler sample_env world0 (req ''Pune'' ''3'') =
     (Inr \<lparr>statusCode = 200,
           body = Weather
             \<lparr>cw_date = ''2024-05-01 10:15:00'', cw_temperature = JFloat 29.4,
               cw_wind_speed = JFloat 7.2, cw_wind_direction = JInt 240,
               cw_humidity = JInt 30, cw_pressure = JInt 981\<rparr>
             [\<lparr>hp_time = JStr ''2024-05-01T00:00'', hp_wind_speed = JFloat 4.5,
                hp_wind_direction = JInt 200\<rparr>,
              \<lparr>hp_time = JStr ''2024-05-01T01:00'', hp_wind_speed = JFloat 11.5,
                hp_wind_direction = JInt 213\<rparr>,
              \<lparr>hp_time = JStr ''2024-05-01T02:00'', hp_wind_speed = JFloat 9.5,
                hp_wind_direction = JInt 226\<rparr>,
              \<lparr>hp_time = JStr ''2024-05-01T03:00'', hp_wind_speed = JFloat 7.5,
                hp_wind_direction = JInt 239\<rparr>]\<rparr>,
      \<lparr>calls = [GetCoordinates ''Pune'', GetCurrentWeather 18.5 73.9,
                GetHourlyWeather 18.5 73.9 3], draws = 2\<rparr>)"
proof -
  let ?s1 = "\<lparr>calls = [GetCoordinates ''Pune''], draws = 0\<rparr>"
  let ?s2 = "\<lparr>calls = [GetCoordinates ''Pune'', GetCurrentWeather 18.5 73.9], draws = 2\<rparr>"
  let ?s3 = "\<lparr>calls = [GetCoordinates ''Pune'', GetCurrentWeather 18.5 73.9,
                      GetHourlyWeather 18.5 73.9 3], draws = 2\<rparr>"
  let ?cw = "\<lparr>cw_date = ''2024-05-01 10:15:00'', cw_temperature = JFloat 29.4,
              cw_wind_speed = JFloat 7.2, cw_wind_direction = JInt 240,
              cw_humidity = JInt 30, cw_pressure = JInt 981\<rparr>"
  let ?hw = "[\<lparr>hp_time = JStr ''2024-05-01T00:00'', hp_wind_speed = JFloat 4.5,
                hp_wind_direction = JInt 200\<rparr>,
              \<lparr>hp_time = JStr ''2024-05-01T01:00'', hp_wind_speed = JFloat 11.5,
                hp_wind_direction = JInt 213\<rparr>,
              \<lparr>hp_time = JStr ''2024-05-01T02:00'', hp_wind_speed = JFloat 9.5,
                hp_wind_direction = JInt 226\<rparr>,
              \<lparr>hp_time = JStr ''2024-05-01T03:00'', hp_wind_speed = JFloat 7.5,
                hp_wind_direction = JInt 239\<rparr>]"
  have city: "query (req ''Pune'' ''3'') ''city'' = Some ''Pune''"
    and hour: "query (req ''Pune'' ''3'') ''hour'' = Some ''3''"
    and geo: "get_coordinates sample_env world0 ''Pune'' = ((Some 18.5, Some 73.9), ?s1)"
    and cur: "get_current_weather sample_env ?s1 18.5 73.9 = (Inr (Some ?cw), ?s2)"
    and num: "py_int (int_max_str_digits sample_env) ''3'' = Inr 3"
    by (simp_all add: run_defs sample_defs py_int_eval Let_def)
  have hourly: "get_hourly_weather sample_env ?s2 18.5 73.9 3 = (Inr (Some ?hw), ?s3)"
    by (simp add: run_defs sample_defs Let_def upt_rec)
  show ?thesis
    using C1_success_response [OF city hour geo cur num hourly] by simp
qed

theorem C1_negative_hour_counterexample:
  "query (req ''Pune'' ''-5'') ''city'' = Some ''Pune'' \<and>
   query (req ''Pune'' ''-5'') ''hour'' = Some ''-5'' \<and>
   py_int (int_max_str_digits sample_env) ''-5'' = Inr (- 5) \<and>
   handler sample_env world0 (req ''Pune'' ''-5'') =
     (Inr \<lparr>statusCode = 200,
           body = Weather
             \<lparr>cw_date = ''2024-05-01 10:15:00'', cw_temperature = JFloat 29.4,
               cw_wind_speed = JFloat 7.2, cw_wind_direction = JInt 240,
               cw_humidity = JInt 30, cw_pressure = JInt 981\<rparr> []\<rparr>,
      \<lparr>calls = [GetCoordinates ''Pune'', GetCurrentWeather 18.5 73.9,
                GetHourlyWeather 18.5 73.9 (- 5)], draws = 2\<rparr>) \<and>
   \<not> int (length ([] :: hourly_point list)) \<le> - 5 + 1"
  by (simp add: run_defs sample_defs py_int_eval Let_def)

text \<open>
  Claim C7, amended. When both parameters are present, \<^verbatim>\<open>int\<close> rejects the
  \<^verbatim>\<open>hour\<close> value, the city is located and the current-weather fetch succeeds, the
  handler ends with an uncaught \<^verbatim>\<open>ValueError\<close> and returns no response; the hourly
  fetcher has not been entered. (An hour padded with whitespace, U+00A0 included, is not
  rejected: \<open>py_int_padded\<close>, \<open>padded_hour_served\<close>.)

  As stated, for every request with an unparseable hour, the claim fails: \<^verbatim>\<open>int\<close> is
  applied only after the two earlier stages, so when the city is not found the handler
  returns status 404.
\<close>

theorem C7_unparseable_hour:
  assumes "query request ''city'' = Some city_name"
    and "query request ''hour'' = Some end_hour"
    and "py_int (int_max_str_digits e) end_hour = Inl err"
    and "get_coordinates e s city_name = ((Some latitude, Some longitude), s1)"
    and "get_current_weather e s1 latitude longitude = (Inr (Some cw), s2)"
  shows "handler e s request = (Inl ValueError, s2) \<and>
         calls s2 = calls s @ [GetCoordinates city_name, GetCurrentWeather latitude longitude]"
proof
  have "err = ValueError" using assms(3) by (rule py_int_error)
  then show "handler e s request = (Inl ValueError, s2)"
    using assms(3,5) by (simp add: handler_located [OF assms(1,2,4)] raising_Inl)
  have "calls s1 = calls s @ [GetCoordinates city_name]"
    using calls_get_coordinates [of e s city_name] assms(4) by simp
  moreover have "calls s2 = calls s1 @ [GetCurrentWeather latitude longitude]"
    using calls_get_current_weather [of e s1 latitude longitude] assms(5) by simp
  ultimately show "calls s2 =
      calls s @ [GetCoordinates city_name, GetCurrentWeather latitude longitude]"
    by simp
qed

theorem C7_unparseable_hour_witness:
  "py_int (int_max_str_digits sample_env) ''abc'' = Inl ValueError \<and>
   handler sample_env world0 (req ''Pune'' ''abc'') =
     (Inl ValueError,
      \<lparr>calls = [GetCoordinates ''Pune'', GetCurrentWeather 18.5 73.9], draws = 2\<rparr>)"
proof -
  let ?s1 = "\<lparr>calls = [GetCoordinates ''Pune''], draws = 0\<rparr>"
  let ?s2 = "\<lparr>calls = [GetCoordinates ''Pune'', GetCurrentWeather 18.5 73.9], draws = 2\<rparr>"
  let ?cw = "\<lparr>cw_date = ''2024-05-01 10:15:00'', cw_temperature = JFloat 29.4,
              cw_wind_speed = JFloat 7.2, cw_wind_direction = JInt 240,
              cw_humidity = JInt 30, cw_pressure = JInt 981\<rparr>"
  have city: "query (req ''Pune'' ''abc'') ''city'' = Some ''Pune''"
    and hour: "query (req ''Pune'' ''abc'') ''hour'' = Some ''abc''"
    and num: "py_int (int_max_str_digits sample_env) ''abc'' = Inl ValueError"
    and geo: "get_coordinates sample_env world0 ''Pune'' = ((Some 18.5, Some 73.9), ?s1)"
    and cur: "get_current_weather sample_env ?s1 18.5 73.9 = (Inr (Some ?cw), ?s2)"
    by (simp_all add: run_defs sample_defs py_int_eval Let_def)
  show ?thesis
    using num C7_unparseable_hour [OF city hour num geo cur] by simp
qed

theorem C7_status_returned_counterexample:
  "query (req ''Atlantis'' ''abc'') ''city'' = Some ''Atlantis'' \<and>
   query (req ''Atlantis'' ''abc'') ''hour'' = Some ''abc'' \<and>
   py_int (int_max_str_digits sample_env) ''abc'' = Inl ValueError \<and>
   handler sample_env world0 (req ''Atlantis'' ''abc'') =
     (Inr \<lparr>statusCode = 404, body = Message ''City not found.''\<rparr>,
      \<lparr>calls = [GetCoordinates ''Atlantis''], draws = 0\<rparr>)"
  by (simp add: run_defs sample_defs py_int_eval Let_def)

text \<open>
  Claim C10. For a negative \<open>end_hour\<close> a successful hourly fetch returns the empty
  sequence; so when \<^verbatim>\<open>hour\<close> parses as a negative integer and the three collaborators
  succeed, the handler answers status 200 with an empty hourly sequence.
\<close>

theorem C10_negative_hour:
  "(n < 0 \<and> get_hourly_weather e s2 latitude longitude n = (Inr (Some hw), s3)
      \<longrightarrow> hw = []) \<and>
   (query request ''city'' = Some city_name \<and> query request ''hour'' = Some end_hour \<and>
    py_int (int_max_str_digits e) end_hour = Inr n \<and> n < 0 \<and>
    get_coordinates e s city_name = ((Some latitude, Some longitude), s1) \<and>
    get_current_weather e s1 latitude longitude = (Inr (Some cw), s2) \<and>
    get_hourly_weather e s2 latitude longitude n = (Inr (Some hw), s3)
      \<longrightarrow> handler e s request = (Inr \<lparr>statusCode = 200, body = Weather cw []\<rparr>, s3))"
proof -
  have empty: "hw = []"
    if "n < 0" and "get_hourly_weather e s2 latitude longitude n = (Inr (Some hw), s3)"
    using get_hourly_weather_length [OF that(2)] that(1) by auto
  show ?thesis
  proof (intro conjI impI)
    assume "n < 0 \<and> get_hourly_weather e s2 latitude longitude n = (Inr (Some hw), s3)"
    then show "hw = []" using empty by blast
  next
    assume a: "query request ''city'' = Some city_name \<and>
      query request ''hour'' = Some end_hour \<and>
      py_int (int_max_str_digits e) end_hour = Inr n \<and> n < 0 \<and>
      get_coordinates e s city_name = ((Some latitude, Some longitude), s1) \<and>
      get_current_weather e s1 latitude longitude = (Inr (Some cw), s2) \<and>
      get_hourly_weather e s2 latitude longitude n = (Inr (Some hw), s3)"
    then have "hw = []" using empty by blast
    with a show "handler e s request = (Inr \<lparr>statusCode = 200, body = Weather cw []\<rparr>, s3)"
      using handler_located [of request city_name end_hour e s latitude longitude s1]
      by (simp add: raising_Inr)
  qed
qed

theorem C10_negative_hour_witness:
  "py_int (int_max_str_digits sample_env) ''-1'' = Inr (- 1) \<and> (- 1 :: int) < 0 \<and>
   get_hourly_weather sample_env
     \<lparr>calls = [GetCoordinates ''Pune'', GetCurrentWeather 18.5 73.9], draws = 2\<rparr>
     18.5 73.9 (- 1) =
     (Inr (Some []),
      \<lparr>calls = [GetCoordinates ''Pune'', GetCurrentWeather 18.5 73.9,
                GetHourlyWeather 18.5 73.9 (- 1)], draws = 2\<rparr>) \<and>
   handler sample_env world0 (req ''Pune'' ''-1'') =
     (Inr \<lparr>statusCode = 200,
           body = Weather
             \<lparr>cw_date = ''2024-05-01 10:15:00'', cw_temperature = JFloat 29.4,
               cw_wind_speed = JFloat 7.2, cw_wind_direction = JInt 240,
               cw_humidity = JInt 30, cw_pressure = JInt 981\<rparr> []\<rparr>,
      \<lparr>calls = [GetCoordinates ''Pune'', GetCurrentWeather 18.5 73.9,
                GetHourlyWeather 18.5 73.9 (- 1)], draws = 2\<rparr>)"
proof -
  let ?s1 = "\<lparr>calls = [GetCoordinates ''Pune''], draws = 0\<rparr>"
  let ?s2 = "\<lparr>calls = [GetCoordinates ''Pune'', GetCurrentWeather 18.5 73.9], draws = 2\<rparr>"
  let ?s3 = "\<lparr>calls = [GetCoordinates ''Pune'', GetCurrentWeather 18.5 73.9,
                      GetHourlyWeather 18.5 73.9 (- 1)], draws = 2\<rparr>"
  let ?cw = "\<lparr>cw_date = ''2024-05-01 10:15:00'', cw_temperature = JFloat 29.4,
              cw_wind_speed = JFloat 7.2, cw_wind_direction = JInt 240,
              cw_humidity = JInt 30, cw_pressure = JInt 981\<rparr>"
  have city: "query (req ''Pune'' ''-1'') ''city'' = Some ''Pune''"
    and hour: "query (req ''Pune'' ''-1'') ''hour'' = Some ''-1''"
    and num: "py_int (int_max_str_digits sample_env) ''-1'' = Inr (- 1)"
    and geo: "get_coordinates sample_env world0 ''Pune'' = ((Some 18.5, Some 73.9), ?s1)"
    and cur: "get_current_weather sample_env ?s1 18.5 73.9 = (Inr (Some ?cw), ?s2)"
    and hourly: "get_hourly_weather sample_env ?s2 18.5 73.9 (- 1) = (Inr (Some []), ?s3)"
    by (simp_all add: run_defs sample_defs py_int_eval Let_def)
  show ?thesis
    using city hour num geo cur hourly
      C10_negative_hour [of "- 1" sample_env ?s2 "18.5" "73.9" "[]" ?s3 "req ''Pune'' ''-1''"
        "''Pune''" "''-1''" world0 ?s1 ?cw]
    by simp
qed

section \<open>What the fetchers return\<close>

text \<open>
  Claim C5, amended. Let the upstream answer hold the timestamp list \<open>ts\<close>. A successful
  hourly fetch returns exactly \<open>max 0 (min (end_hour + 1) (length ts))\<close> points, whose
  timestamps are the first entries of \<open>ts\<close> in the upstream's order; with
  \<open>end_hour = 3\<close> and 24 entries these are the 4 entries at indices 0 to 3, with
  \<open>end_hour = 30\<close> and 24 entries all 24. When the two wind arrays are lists as well,
  the fetch does succeed, for every \<open>end_hour\<close>: an hour beyond the series is no error.

  As stated, with the count \<open>min (end_hour + 1) (length ts)\<close>, the claim fails for
  \<open>end_hour = -5\<close>: the fetch returns no point, and \<open>min (-4) 24\<close> is not 0.
\<close>

theorem C5_hourly_length:
  assumes "forecast_hourly e latitude longitude (today e) = Json data"
    and "py_get data ''hourly'' (JObj []) = Inr hourly_data"
    and "py_get hourly_data ''time'' (JArr []) = Inr (JArr ts)"
  shows "(get_hourly_weather e s latitude longitude end_hour = (Inr (Some hw), s') \<longrightarrow>
            int (length hw) = max 0 (min (end_hour + 1) (int (length ts))) \<and>
            map hp_time hw = take (length hw) ts \<and>
            (end_hour = 3 \<and> length ts = 24 \<longrightarrow>
               length hw = 4 \<and> map hp_time hw = [ts ! 0, ts ! 1, ts ! 2, ts ! 3]) \<and>
            (end_hour = 30 \<and> length ts = 24 \<longrightarrow>
               length hw = 24 \<and> map hp_time hw = ts)) \<and>
         (py_get hourly_data ''windspeed_10m'' (JArr []) = Inr (JArr ws) \<and>
          py_get hourly_data ''winddirection_10m'' (JArr []) = Inr (JArr wd) \<longrightarrow>
            (\<exists>pts s3. get_hourly_weather e s latitude longitude end_hour =
                        (Inr (Some pts), s3)))"
proof (intro conjI impI)
  let ?k = "nat (min (end_hour + 1) (int (length ts)))"
  from get_hourly_weather_payload [OF assms, of s end_hour] obtain ws0 wd0 where
    ws0: "py_get hourly_data ''windspeed_10m'' (JArr []) = Inr ws0" and
    wd0: "py_get hourly_data ''winddirection_10m'' (JArr []) = Inr wd0" and
    run: "get_hourly_weather e s latitude longitude end_hour =
       (case hourly_loop e (JArr ts) ws0 wd0 [0 ..< ?k]
               (enter (GetHourlyWeather latitude longitude end_hour) s) [] of
          (Inl err, s2) \<Rightarrow> (Inl err, s2)
        | (Inr hw, s2) \<Rightarrow> (Inr (Some hw), s2))"
    by (auto simp: py_range_upt)
  have k: "?k \<le> length ts" by simp
  {
    assume ok: "get_hourly_weather e s latitude longitude end_hour = (Inr (Some hw), s')"
    with run have "hourly_loop e (JArr ts) ws0 wd0 [0 ..< ?k]
        (enter (GetHourlyWeather latitude longitude end_hour) s) [] = (Inr hw, s')"
      by (auto split: prod.splits sum.splits)
    from hourly_loop_times [OF this]
    have times: "map hp_time hw = take ?k ts"
      by (simp add: take_as_map_nth [OF k])
    then have "length (map hp_time hw) = length (take ?k ts)" by simp
    then have len: "length hw = ?k" by simp
    show "int (length hw) = max 0 (min (end_hour + 1) (int (length ts)))"
      using len by simp
    show "map hp_time hw = take (length hw) ts"
      using times len by simp
    {
      assume "end_hour = 3 \<and> length ts = 24"
      then have l4: "?k = 4" by simp
      with len show "length hw = 4" by simp
      have "take 4 ts = map (\<lambda>i. ts ! i) [0 ..< 4]"
        using k l4 by (simp only: take_as_map_nth)
      also have "[0 ..< 4] = [0, 1, 2, 3 :: nat]" by (simp add: upt_rec)
      finally show "map hp_time hw = [ts ! 0, ts ! 1, ts ! 2, ts ! 3]"
        using times l4 by simp
    }
    {
      assume "end_hour = 30 \<and> length ts = 24"
      then have l24: "?k = 24" "length ts = 24" by simp_all
      with len show "length hw = 24" by simp
      show "map hp_time hw = ts" using times l24 by simp
    }
  }
  {
    assume "py_get hourly_data ''windspeed_10m'' (JArr []) = Inr (JArr ws) \<and>
            py_get hourly_data ''winddirection_10m'' (JArr []) = Inr (JArr wd)"
    with ws0 wd0 have eq: "ws0 = JArr ws" "wd0 = JArr wd" by simp_all
    have "\<forall>i \<in> set [0 ..< ?k]. i < length ts" using k by auto
    from hourly_loop_total [OF this, of e ws wd
        "enter (GetHourlyWeather latitude longitude end_hour) s" "[]"]
    show "\<exists>pts s3. get_hourly_weather e s latitude longitude end_hour = (Inr (Some pts), s3)"
      using run eq by auto
  }
qed


theorem C5_hourly_length_witness:
  "length sample_times = 24 \<and>
   (\<exists>hw s'. get_hourly_weather sample_env world0 18.5 73.9 3 = (Inr (Some hw), s') \<and>
      length hw = 4 \<and>
      map hp_time hw = [JStr ''2024-05-01T00:00'', JStr ''2024-05-01T01:00'',
                        JStr ''2024-05-01T02:00'', JStr ''2024-05-01T03:00'']) \<and>
   (\<exists>hw s'. get_hourly_weather sample_env world0 18.5 73.9 30 = (Inr (Some hw), s') \<and>
      length hw = 24 \<and> map hp_time hw = sample_times)"
proof -
  have reply: "forecast_hourly sample_env 18.5 73.9 (today sample_env) = Json sample_hourly"
    and hourly: "py_get sample_hourly ''hourly'' (JObj []) = Inr sample_hourly_data"
    and time: "py_get sample_hourly_data ''time'' (JArr []) = Inr (JArr sample_times)"
    and speeds: "py_get sample_hourly_data ''windspeed_10m'' (JArr []) = Inr (JArr sample_speeds)"
    and dirs: "py_get sample_hourly_data ''winddirection_10m'' (JArr [])
                 = Inr (JArr sample_directions)"
    by (simp_all add: sample_env_def sample_hourly_def sample_hourly_data_def)
  have len: "length sample_times = 24"
    by (simp add: sample_times_def)
  note c5 = C5_hourly_length [OF reply hourly time, where s = world0
      and ws = sample_speeds and wd = sample_directions]
  from c5 [of 3] speeds dirs obtain hw3 s3 where
    r3: "get_hourly_weather sample_env world0 18.5 73.9 3 = (Inr (Some hw3), s3)"
    by blast
  from c5 [of 3 hw3 s3] r3 len
  have "length hw3 = 4 \<and>
        map hp_time hw3 = [sample_times ! 0, sample_times ! 1, sample_times ! 2, sample_times ! 3]"
    by blast
  then have p3: "length hw3 = 4 \<and>
      map hp_time hw3 = [JStr ''2024-05-01T00:00'', JStr ''2024-05-01T01:00'',
                         JStr ''2024-05-01T02:00'', JStr ''2024-05-01T03:00'']"
    by (simp add: sample_times_def)
  from c5 [of 30] speeds dirs obtain hw30 s30 where
    r30: "get_hourly_weather sample_env world0 18.5 73.9 30 = (Inr (Some hw30), s30)"
    by blast
  from c5 [of 30 hw30 s30] r30 len
  have p30: "length hw30 = 24 \<and> map hp_time hw30 = sample_times"
    by blast
  from len r3 p3 r30 p30 show ?thesis by auto
qed

theorem C5_negative_hour_counterexample:
  "forecast_hourly sample_env 18.5 73.9 (today sample_env) = Json sample_hourly \<and>
   py_get sample_hourly ''hourly'' (JObj []) = Inr sample_hourly_data \<and>
   py_get sample_hourly_data ''time'' (JArr []) = Inr (JArr sample_times) \<and>
   length sample_times = 24 \<and>
   get_hourly_weather sample_env world0 18.5 73.9 (- 5) =
     (Inr (Some []), \<lparr>calls = [GetHourlyWeather 18.5 73.9 (- 5)], draws = 0\<rparr>) \<and>
   int (length ([] :: hourly_point list)) \<noteq> min (- 5 + 1) (int (length sample_times))"
  by (simp add: run_defs sample_defs Let_def)

text \<open>
  Claim C6, amended. On a successful hourly fetch over list-shaped arrays, each point takes
  its two wind fields independently. The wind speed is the wind-speed array's entry at the
  point's index when that array has one, and otherwise the value a fresh call of
  \<^verbatim>\<open>random.uniform(3, 8)\<close> returns, which lies in \<open>[3, 8]\<close>. The wind direction is the
  wind-direction array's entry when that array has one, and otherwise the value a fresh
  call of \<^verbatim>\<open>random.uniform(0, 360)\<close> returns, which lies in \<open>[0, 360)\<close>. The call is the
  random module's next draw: counted from the draws made before the fetch, one draw has
  been used for every earlier index that either array lacks. The bounds are those of the
  binary64 computation, and rest on the random module's contract \<open>random_ok\<close>.

  As stated, with both fields substituted as soon as either array lacks the index, the
  claim fails: with one wind speed 20 and no wind direction, the point at index 0 keeps the
  upstream speed 20, which is no draw from \<open>[3, 8]\<close>.
\<close>

theorem C6_slot_values:
  assumes "random_ok e"
    and "forecast_hourly e latitude longitude (today e) = Json data"
    and "py_get data ''hourly'' (JObj []) = Inr hourly_data"
    and "py_get hourly_data ''time'' (JArr []) = Inr (JArr ts)"
    and "py_get hourly_data ''windspeed_10m'' (JArr []) = Inr (JArr ws)"
    and "py_get hourly_data ''winddirection_10m'' (JArr []) = Inr (JArr wd)"
    and "get_hourly_weather e s latitude longitude end_hour = (Inr (Some hw), s')"
    and "i < length hw"
  shows "hp_wind_speed (hw ! i) =
           (if i < length ws then ws ! i
            else JFloat (uniform e (draws s + (i - length ws) + (i - length wd)) 3 8)) \<and>
         hp_wind_direction (hw ! i) =
           (if i < length wd then wd ! i
            else JFloat (uniform e (draws s + (i - length ws) + (i - length wd)
                                      + (if i < length ws then 0 else 1)) 0 360)) \<and>
         3 \<le> uniform e k 3 8 \<and> uniform e k 3 8 \<le> 8 \<and>
         0 \<le> uniform e k 0 360 \<and> uniform e k 0 360 < 360"
proof -
  let ?n = "nat (min (end_hour + 1) (int (length ts)))"
  let ?s1 = "enter (GetHourlyWeather latitude longitude end_hour) s"
  from get_hourly_weather_payload [OF assms(2-4), of s end_hour] assms(5,6)
  have run: "get_hourly_weather e s latitude longitude end_hour =
       (case hourly_loop e (JArr ts) (JArr ws) (JArr wd) [0 ..< ?n] ?s1 [] of
          (Inl err, s2) \<Rightarrow> (Inl err, s2)
        | (Inr hw, s2) \<Rightarrow> (Inr (Some hw), s2))"
    by (auto simp: py_range_upt)
  with assms(7) have loop:
    "hourly_loop e (JArr ts) (JArr ws) (JArr wd) [0 ..< ?n] ?s1 [] = (Inr hw, s')"
    by (auto split: prod.splits sum.splits)
  have d0: "draws ?s1 = draws s + (0 - length ws) + (0 - length wd)"
    by (simp add: enter_def)
  note closed = hourly_loop_arrays [OF loop d0]
  then have "length hw = ?n" by simp
  with assms(8) have i: "i < ?n" by simp
  from closed i have
    "hw ! i = \<lparr>hp_time = ts ! i,
       hp_wind_speed =
         (if i < length ws then ws ! i
          else JFloat (uniform e (draws s + (i - length ws) + (i - length wd)) (5 - 2) (5 + 3))),
       hp_wind_direction =
         (if i < length wd then wd ! i
          else JFloat (uniform e (draws s + (i - length ws) + (i - length wd)
                                    + (if i < length ws then 0 else 1)) 0 360))\<rparr>"
    by simp
  then have point:
    "hp_wind_speed (hw ! i) =
       (if i < length ws then ws ! i
        else JFloat (uniform e (draws s + (i - length ws) + (i - length wd)) 3 8))"
    "hp_wind_direction (hw ! i) =
       (if i < length wd then wd ! i
        else JFloat (uniform e (draws s + (i - length ws) + (i - length wd)
                                  + (if i < length ws then 0 else 1)) 0 360))"
    by simp_all
  from point uniform_3_8 [OF assms(1), of k] uniform_0_360 [OF assms(1), of k]
  show ?thesis by blast
qed

theorem C6_slot_values_witness:
  "random_ok sample_env \<and>
   get_hourly_weather sample_env world0 30 31.2 5 =
     (Inr (Some [\<lparr>hp_time = JStr ''2024-05-01T00:00'', hp_wind_speed = JInt 20,
                   hp_wind_direction = JFloat (uniform sample_env 0 0 360)\<rparr>,
                 \<lparr>hp_time = JStr ''2024-05-01T01:00'',
                   hp_wind_speed = JFloat (uniform sample_env 1 3 8),
                   hp_wind_direction = JFloat (uniform sample_env 2 0 360)\<rparr>]),
      \<lparr>calls = [GetHourlyWeather 30 31.2 5], draws = 3\<rparr>) \<and>
   uniform sample_env 0 0 360 = 180 \<and>
   uniform sample_env 1 3 8 = 8 - 1 / 2 ^ 50 \<and>
   uniform sample_env 2 0 360 = 360 - 1 / 2 ^ 44 \<and>
   3 \<le> uniform sample_env 1 3 8 \<and> uniform sample_env 1 3 8 \<le> 8 \<and>
   0 \<le> uniform sample_env 2 0 360 \<and> uniform sample_env 2 0 360 < 360"
proof -
  let ?hw = "[\<lparr>hp_time = JStr ''2024-05-01T00:00'', hp_wind_speed = JInt 20,
                hp_wind_direction = JFloat (uniform sample_env 0 0 360)\<rparr>,
              \<lparr>hp_time = JStr ''2024-05-01T01:00'',
                hp_wind_speed = JFloat (uniform sample_env 1 3 8),
                hp_wind_direction = JFloat (uniform sample_env 2 0 360)\<rparr>]"
  let ?s' = "\<lparr>calls = [GetHourlyWeather 30 31.2 5], draws = 3\<rparr>"
  have reply: "forecast_hourly sample_env 30 31.2 (today sample_env) = Json short_hourly"
    and hourly: "py_get short_hourly ''hourly'' (JObj []) = Inr short_hourly_data"
    and time: "py_get short_hourly_data ''time'' (JArr [])
                 = Inr (JArr [JStr ''2024-05-01T00:00'', JStr ''2024-05-01T01:00''])"
    and speeds: "py_get short_hourly_data ''windspeed_10m'' (JArr []) = Inr (JArr [JInt 20])"
    and dirs: "py_get short_hourly_data ''winddirection_10m'' (JArr []) = Inr (JArr [])"
    by (simp_all add: sample_env_def short_hourly_def short_hourly_data_def)
  have run: "get_hourly_weather sample_env world0 30 31.2 5 = (Inr (Some ?hw), ?s')"
    by (simp add: run_defs sample_env_hourly short_hourly_def short_hourly_data_def
        world0_def Let_def upt_rec numeral_2_eq_2)
  have i1: "1 < length ?hw" by simp
  note c6 = C6_slot_values [OF random_ok_sample reply hourly time speeds dirs run i1]
  have "3 \<le> uniform sample_env 1 3 8 \<and> uniform sample_env 1 3 8 \<le> 8"
    using c6 [of 1] by blast
  moreover have "0 \<le> uniform sample_env 2 0 360 \<and> uniform sample_env 2 0 360 < 360"
    using c6 [of 2] by blast
  ultimately show ?thesis
    using run random_ok_sample uniform_sample_values by simp
qed

theorem C6_speed_kept_counterexample:
  "random_ok sample_env \<and>
   forecast_hourly sample_env 30 31.2 (today sample_env) = Json short_hourly \<and>
   py_get short_hourly ''hourly'' (JObj []) = Inr short_hourly_data \<and>
   py_get short_hourly_data ''windspeed_10m'' (JArr []) = Inr (JArr [JInt 20]) \<and>
   py_get short_hourly_data ''winddirection_10m'' (JArr []) = Inr (JArr []) \<and>
   \<not> 0 < length ([] :: json list) \<and>
   get_hourly_weather sample_env world0 30 31.2 0 =
     (Inr (Some [\<lparr>hp_time = JStr ''2024-05-01T00:00'', hp_wind_speed = JInt 20,
                   hp_wind_direction = JFloat 180\<rparr>]),
      \<lparr>calls = [GetHourlyWeather 30 31.2 0], draws = 1\<rparr>) \<and>
   \<not> (3 \<le> (20 :: int) \<and> (20 :: int) \<le> 8)"
  by (simp add: run_defs sample_env_hourly short_hourly_def short_hourly_data_def
      world0_def Let_def random_ok_sample uniform_sample_values)

text \<open>
  Claim C8. When the upstream answers with a payload whose \<^verbatim>\<open>current_weather\<close> object
  (or the empty object standing in for a missing one) is \<open>kvs\<close>, the fetch succeeds, and
  independently for each of the two fields: a humidity that \<open>kvs\<close> omits is an integer in
  \<open>[30, 90]\<close> and a pressure that it omits is an integer in \<open>[980, 1050]\<close>, so neither
  is null; a field that is present is passed on. The bounds rest on the random module's
  contract \<open>random_ok\<close>.
\<close>

theorem C8_placeholders:
  assumes "random_ok e"
    and "forecast_current e latitude longitude = Json data"
    and "py_get data ''current_weather'' (JObj []) = Inr (JObj kvs)"
  shows "\<exists>cw s'. get_current_weather e s latitude longitude = (Inr (Some cw), s') \<and>
     (case map_of kvs ''relative_humidity'' of
        Some v \<Rightarrow> cw_humidity cw = v
      | None \<Rightarrow> \<exists>n. cw_humidity cw = JInt n \<and> 30 \<le> n \<and> n \<le> 90) \<and>
     (case map_of kvs ''pressure_msl'' of
        Some v \<Rightarrow> cw_pressure cw = v
      | None \<Rightarrow> \<exists>n. cw_pressure cw = JInt n \<and> 980 \<le> n \<and> n \<le> 1050)"
proof -
  have h: "30 \<le> randint e k 30 90 \<and> randint e k 30 90 \<le> 90" for k
    using randint_range [OF assms(1), of 30 90 k] by simp
  have p: "980 \<le> randint e k 980 1050 \<and> randint e k 980 1050 \<le> 1050" for k
    using randint_range [OF assms(1), of 980 1050 k] by simp
  show ?thesis
    using h p
    by (simp add: get_current_weather_payload [OF assms(2,3)] split: option.splits)
qed

theorem C8_placeholders_witness:
  "random_ok sample_env \<and>
   get_current_weather sample_env world0 18.5 73.9 =
     (Inr (Some \<lparr>cw_date = ''2024-05-01 10:15:00'', cw_temperature = JFloat 29.4,
                  cw_wind_speed = JFloat 7.2, cw_wind_direction = JInt 240,
                  cw_humidity = JInt 30, cw_pressure = JInt 981\<rparr>),
      \<lparr>calls = [GetCurrentWeather 18.5 73.9], draws = 2\<rparr>) \<and>
   get_current_weather sample_env world0 30 31.2 =
     (Inr (Some \<lparr>cw_date = ''2024-05-01 10:15:00'', cw_temperature = JInt 35,
                  cw_wind_speed = JStr ''N/A'', cw_wind_direction = JStr ''N/A'',
                  cw_humidity = JInt 12, cw_pressure = JInt 981\<rparr>),
      \<lparr>calls = [GetCurrentWeather 30 31.2], draws = 2\<rparr>) \<and>
   (\<exists>n. JInt 30 = JInt n \<and> 30 \<le> n \<and> n \<le> 90) \<and>
   (\<exists>n. JInt 981 = JInt n \<and> 980 \<le> n \<and> n \<le> 1050)"
proof -
  let ?pune = "[(''temperature'', JFloat 29.4), (''windspeed'', JFloat 7.2),
                (''winddirection'', JInt 240)]"
  let ?cairo = "[(''temperature'', JInt 35), (''relative_humidity'', JInt 12)]"
  have p_reply: "forecast_current sample_env 18.5 73.9 = Json sample_current"
    and p_cur: "py_get sample_current ''current_weather'' (JObj []) = Inr (JObj ?pune)"
    and c_reply: "forecast_current sample_env 30 31.2 = Json humid_current"
    and c_cur: "py_get humid_current ''current_weather'' (JObj []) = Inr (JObj ?cairo)"
    by (simp_all add: sample_env_def sample_current_def humid_current_def)
  have p_run: "get_current_weather sample_env world0 18.5 73.9 =
     (Inr (Some \<lparr>cw_date = ''2024-05-01 10:15:00'', cw_temperature = JFloat 29.4,
                  cw_wind_speed = JFloat 7.2, cw_wind_direction = JInt 240,
                  cw_humidity = JInt 30, cw_pressure = JInt 981\<rparr>),
      \<lparr>calls = [GetCurrentWeather 18.5 73.9], draws = 2\<rparr>)"
    and c_run: "get_current_weather sample_env world0 30 31.2 =
     (Inr (Some \<lparr>cw_date = ''2024-05-01 10:15:00'', cw_temperature = JInt 35,
                  cw_wind_speed = JStr ''N/A'', cw_wind_direction = JStr ''N/A'',
                  cw_humidity = JInt 12, cw_pressure = JInt 981\<rparr>),
      \<lparr>calls = [GetCurrentWeather 30 31.2], draws = 2\<rparr>)"
    by (simp_all add: run_defs sample_defs Let_def)
  from C8_placeholders [OF random_ok_sample p_reply p_cur, of world0]
    C8_placeholders [OF random_ok_sample c_reply c_cur, of world0]
    p_run c_run random_ok_sample
  show ?thesis by simp
qed

end
